theory Spec2Isabelle
  imports Complex_Main "HOL-Library.AList" "HOL-Library.Sublist"
begin

section \<open>JavaScript values\<close>

text \<open>
  The server (\<^verbatim>\<open>src/server-improved.js\<close>) works on untyped JavaScript values that come
  out of JSON payloads and of \<^verbatim>\<open>parseFloat\<close>. A number is an IEEE double: not-a-number,
  an infinity, or a finite value. Finite doubles are embedded in the reals; the functions
  modelled here never compute with numbers, they only test them for truthiness, compare
  them with literal thresholds and format them, so no rounding is involved. The two
  zeros are identified (both are falsy and compare alike).
\<close>

datatype jsnum = NaN | NegInf | Fin real | PosInf

datatype jsval =
    JUndefined
  | JNull
  | JBool bool
  | JNum jsnum
  | JStr string
  | JArr "jsval list"
  | JObj "(string \<times> jsval) list"

text \<open>The relational operators on numbers: every comparison with \<open>NaN\<close> is false.\<close>

fun js_lt :: "jsnum \<Rightarrow> jsnum \<Rightarrow> bool" where
  "js_lt NaN _ = False"
| "js_lt _ NaN = False"
| "js_lt (Fin a) (Fin b) = (a < b)"
| "js_lt NegInf NegInf = False"
| "js_lt NegInf _ = True"
| "js_lt _ NegInf = False"
| "js_lt PosInf _ = False"
| "js_lt _ PosInf = True"

definition js_gt :: "jsnum \<Rightarrow> jsnum \<Rightarrow> bool" where
  "js_gt a b = js_lt b a"

fun js_le :: "jsnum \<Rightarrow> jsnum \<Rightarrow> bool" where
  "js_le NaN _ = False"
| "js_le _ NaN = False"
| "js_le a b = (\<not> js_lt b a)"

definition js_ge :: "jsnum \<Rightarrow> jsnum \<Rightarrow> bool" where
  "js_ge a b = js_le b a"

text \<open>Truthiness (\<^verbatim>\<open>ToBoolean\<close>), as used by \<^verbatim>\<open>!x\<close>, \<^verbatim>\<open>x && y\<close>, \<^verbatim>\<open>x || y\<close> and \<^verbatim>\<open>if (x)\<close>.\<close>

fun num_truthy :: "jsnum \<Rightarrow> bool" where
  "num_truthy NaN = False"
| "num_truthy (Fin r) = (r \<noteq> 0)"
| "num_truthy NegInf = True"
| "num_truthy PosInf = True"

fun js_truthy :: "jsval \<Rightarrow> bool" where
  "js_truthy JUndefined = False"
| "js_truthy JNull = False"
| "js_truthy (JBool b) = b"
| "js_truthy (JNum n) = num_truthy n"
| "js_truthy (JStr s) = (s \<noteq> [])"
| "js_truthy (JArr _) = True"
| "js_truthy (JObj _) = True"

text \<open>\<^verbatim>\<open>a || b\<close>: the left operand when it is truthy, otherwise the right one, whatever it is.\<close>

definition js_or :: "jsval \<Rightarrow> jsval \<Rightarrow> jsval" where
  "js_or a b = (if js_truthy a then a else b)"

text \<open>\<^verbatim>\<open>typeof v === 'number'\<close>.\<close>

fun is_number :: "jsval \<Rightarrow> bool" where
  "is_number (JNum _) = True"
| "is_number _ = False"

text \<open>
  Property access. An object is the list of its own properties in insertion order
  (the order \<^verbatim>\<open>Object.keys\<close> reports). \<open>get_prop\<close> is \<^verbatim>\<open>o.k\<close> on an object;
  \<open>opt_chain\<close> is \<^verbatim>\<open>v?.k\<close>: \<^verbatim>\<open>undefined\<close> when \<open>v\<close> is \<^verbatim>\<open>undefined\<close> or \<^verbatim>\<open>null\<close>,
  the property when \<open>v\<close> is an object, and \<^verbatim>\<open>undefined\<close> on any other value (none of the
  property names the server reads exists on a primitive or an array).
\<close>

definition get_prop :: "(string \<times> jsval) list \<Rightarrow> string \<Rightarrow> jsval" where
  "get_prop ps k = (case map_of ps k of Some v \<Rightarrow> v | None \<Rightarrow> JUndefined)"

fun opt_chain :: "jsval \<Rightarrow> string \<Rightarrow> jsval" where
  "opt_chain (JObj ps) k = get_prop ps k"
| "opt_chain _ k = JUndefined"

text \<open>\<^verbatim>\<open>o.k = v\<close>: an existing property keeps its place, a new one is appended.\<close>

definition set_prop :: "string \<Rightarrow> jsval \<Rightarrow> (string \<times> jsval) list \<Rightarrow> (string \<times> jsval) list" where
  "set_prop k v ps = AList.update k v ps"


section \<open>Errors and conversion to text\<close>

text \<open>
  A thrown error with its \<^verbatim>\<open>message\<close>. \<open>conversion_error\<close> is the \<^verbatim>\<open>TypeError\<close> of
  \<^verbatim>\<open>ToString\<close> on an object that has no primitive value (the wording is the engine's).
\<close>

datatype js_error = Error string | TypeError string

fun message :: "js_error \<Rightarrow> string" where
  "message (Error m) = m"
| "message (TypeError m) = m"

definition conversion_error :: js_error where
  "conversion_error = TypeError ''Cannot convert object to primitive value''"

text \<open>
  The built-in functions whose results are text produced from doubles, or doubles
  produced from text, are parameters of the model: \<^verbatim>\<open>Number.prototype.toFixed(2)\<close>,
  \<^verbatim>\<open>Number.prototype.toLocaleString('en-IN')\<close>, the conversion of a number to a string,
  \<^verbatim>\<open>parseFloat\<close> on a string and \<^verbatim>\<open>String.prototype.toUpperCase\<close>.
\<close>

record builtins =
  toFixed2 :: "jsnum \<Rightarrow> string"
  toLocaleString_enIN :: "jsnum \<Rightarrow> string"
  numberToString :: "jsnum \<Rightarrow> string"
  parseFloatString :: "string \<Rightarrow> jsnum"
  toUpperCase :: "string \<Rightarrow> string"

fun join :: "string \<Rightarrow> string list \<Rightarrow> string" where
  "join sep [] = []"
| "join sep [x] = x"
| "join sep (x # y # ys) = x @ sep @ join sep (y # ys)"

text \<open>The results of a list of steps, or the first error among them.\<close>

fun sequence :: "(js_error + 'a) list \<Rightarrow> js_error + 'a list" where
  "sequence [] = Inr []"
| "sequence (Inl e # rs) = Inl e"
| "sequence (Inr x # rs) = (case sequence rs of Inl e \<Rightarrow> Inl e | Inr xs \<Rightarrow> Inr (x # xs))"

text \<open>
  \<^verbatim>\<open>ToString\<close>, as applied by a template literal \<^verbatim>\<open>${v}\<close> and by \<^verbatim>\<open>parseFloat(v)\<close>.
  An object is converted through its \<^verbatim>\<open>toString\<close> method. An object parsed from JSON
  inherits the method that answers \<^verbatim>\<open>[object Object]\<close>, unless it has an own property
  \<^verbatim>\<open>toString\<close>: that one is never a function, \<^verbatim>\<open>valueOf\<close> does not yield a primitive
  either, and the conversion throws. An array joins the conversions of its elements
  (\<^verbatim>\<open>undefined\<close> and \<^verbatim>\<open>null\<close> give the empty text), so it throws when one of them does.
\<close>

fun toString :: "builtins \<Rightarrow> jsval \<Rightarrow> js_error + string" where
  "toString rt JUndefined = Inr ''undefined''"
| "toString rt JNull = Inr ''null''"
| "toString rt (JBool b) = Inr (if b then ''true'' else ''false'')"
| "toString rt (JNum n) = Inr (numberToString rt n)"
| "toString rt (JStr s) = Inr s"
| "toString rt (JArr xs) =
     (case sequence (map (\<lambda>x. if x = JUndefined \<or> x = JNull then Inr [] else toString rt x) xs) of
        Inl err \<Rightarrow> Inl err
      | Inr parts \<Rightarrow> Inr (join '','' parts))"
| "toString rt (JObj ps) =
     (case map_of ps ''toString'' of
        Some m \<Rightarrow> Inl conversion_error
      | None \<Rightarrow> Inr ''[object Object]'')"

definition parseFloat :: "builtins \<Rightarrow> jsval \<Rightarrow> js_error + jsnum" where
  "parseFloat rt v =
    (case toString rt v of Inl err \<Rightarrow> Inl err | Inr s \<Rightarrow> Inr (parseFloatString rt s))"

text \<open>
  A template literal: the head text, then each substitution converted to text and
  followed by the literal text after it, from left to right; the first conversion that
  throws ends the evaluation.
\<close>

fun template :: "builtins \<Rightarrow> string \<Rightarrow> (jsval \<times> string) list \<Rightarrow> js_error + string" where
  "template rt head [] = Inr head"
| "template rt head ((v, lit) # rest) =
     (case toString rt v of
        Inl err \<Rightarrow> Inl err
      | Inr s \<Rightarrow> template rt (head @ s @ lit) rest)"

section \<open>The scraper object\<close>

text \<open>
  \<open>combined\<close> is the object built by \<^verbatim>\<open>getCombinedData\<close>; a property that was assigned
  \<^verbatim>\<open>undefined\<close> reads as \<^verbatim>\<open>undefined\<close>. \<open>scraper\<close> is \<^verbatim>\<open>this\<close> of
  \<^verbatim>\<open>ImprovedStockScraper\<close>: \<^verbatim>\<open>this.stockSymbol\<close> and the properties \<open>sources\<close>,
  \<open>combined_data\<close> and \<open>summary\<close> of \<^verbatim>\<open>this.data\<close> (\<^verbatim>\<open>stock_symbol\<close> and \<^verbatim>\<open>scraped_at\<close>
  are never read by the functions below).
\<close>

record combined =
  current_price :: jsval
  change_percent :: jsval
  company_name :: jsval
  market_cap :: jsval
  pe_ratio :: jsval
  roe :: jsval
  book_value :: jsval

record scraper =
  stockSymbol :: string
  sources :: "(string \<times> jsval) list"
  combined_data :: combined
  summary :: jsval

definition empty_combined :: combined where
  "empty_combined = \<lparr>current_price = JUndefined, change_percent = JUndefined,
     company_name = JUndefined, market_cap = JUndefined, pe_ratio = JUndefined,
     roe = JUndefined, book_value = JUndefined\<rparr>"

text \<open>The constructor body after \<^verbatim>\<open>stockSymbol.toUpperCase()\<close> has returned.\<close>

definition new_scraper :: "string \<Rightarrow> scraper" where
  "new_scraper upper = \<lparr>stockSymbol = upper, sources = [], combined_data = empty_combined,
     summary = JObj []\<rparr>"

subsection \<open>getCombinedData\<close>

definition getCombinedData :: "scraper \<Rightarrow> combined \<times> scraper" where
  "getCombinedData this =
    (let srcs = sources this;
         yahoo_finance = get_prop srcs ''yahoo_finance'';
         nse = get_prop srcs ''nse'';
         screener = get_prop srcs ''screener'';
         combined = \<lparr>
           current_price =
             js_or (js_or (opt_chain yahoo_finance ''current_price'')
                          (opt_chain nse ''current_price''))
                   (opt_chain (opt_chain screener ''company_info'') ''price''),
           change_percent =
             js_or (opt_chain yahoo_finance ''change_percent'')
                   (opt_chain nse ''change_percent''),
           company_name =
             js_or (js_or (opt_chain nse ''company_name'')
                          (opt_chain (opt_chain screener ''company_info'') ''name''))
                   (JStr (stockSymbol this)),
           market_cap = opt_chain (opt_chain screener ''ratios'') ''market_cap'',
           pe_ratio =
             js_or (opt_chain (opt_chain screener ''ratios'') ''pe_ratio'')
                   (opt_chain nse ''pe_ratio''),
           roe = opt_chain (opt_chain screener ''ratios'') ''roe'',
           book_value = opt_chain (opt_chain screener ''ratios'') ''book_value''\<rparr>
     in (combined, this\<lparr>combined_data := combined\<rparr>))"

subsection \<open>generateSummary\<close>

text \<open>
  The non-ASCII characters of the templates, as their UTF-8 bytes: the pictographs at
  the head of each line and the rupee sign.
\<close>

definition bar_chart :: string where
  "bar_chart = [CHR 0xF0, CHR 0x9F, CHR 0x93, CHR 0x8A]"

definition money_bag :: string where
  "money_bag = [CHR 0xF0, CHR 0x9F, CHR 0x92, CHR 0xB0]"

definition chart_up :: string where
  "chart_up = [CHR 0xF0, CHR 0x9F, CHR 0x93, CHR 0x88]"

definition office :: string where
  "office = [CHR 0xF0, CHR 0x9F, CHR 0x8F, CHR 0xA2]"

definition chart_yen :: string where
  "chart_yen = [CHR 0xF0, CHR 0x9F, CHR 0x92, CHR 0xB9]"

definition open_book :: string where
  "open_book = [CHR 0xF0, CHR 0x9F, CHR 0x93, CHR 0x96]"

definition warning_sign :: string where
  "warning_sign = [CHR 0xE2, CHR 0x9A, CHR 0xA0, CHR 0xEF, CHR 0xB8, CHR 0x8F]"

definition rupee :: string where
  "rupee = [CHR 0xE2, CHR 0x82, CHR 0xB9]"

definition newline :: string where
  "newline = [CHR 0x0A]"

text \<open>\<^verbatim>\<open>summary.push(x)\<close>.\<close>

definition push :: "'a list \<Rightarrow> 'a \<Rightarrow> 'a list" where
  "push xs x = xs @ [x]"

text \<open>
  The guard \<^verbatim>\<open>v && typeof v === 'number'\<close> together with the number it lets through:
  the receiver of the \<^verbatim>\<open>toFixed\<close> and \<^verbatim>\<open>toLocaleString\<close> calls and the operand of the
  comparisons inside the guarded block.
\<close>

fun truthy_number :: "jsval \<Rightarrow> jsnum option" where
  "truthy_number (JNum n) = (if num_truthy n then Some n else None)"
| "truthy_number _ = None"

text \<open>
  The local variable \<^verbatim>\<open>valuation\<close> of \<^verbatim>\<open>generateSummary\<close> (lines 311 to 314), for the
  number the guard of line 310 lets through. The variable is declared inside the guarded
  block: \<open>summary_valuation\<close> is its value when the block runs, and there is none when it
  does not.
\<close>

definition pe_valuation :: "jsnum \<Rightarrow> string" where
  "pe_valuation pe =
    (let valuation = ''Fair'' in
     if js_lt pe (Fin 15) then ''Cheap''
     else if js_gt pe (Fin 30) \<and> js_le pe (Fin 50) then ''Expensive''
     else if js_gt pe (Fin 50) then ''Very Expensive''
     else valuation)"


text \<open>The local variable \<^verbatim>\<open>risk\<close> of \<^verbatim>\<open>generateSummary\<close> (lines 330 to 337).\<close>

definition risk_assessment :: "combined \<Rightarrow> string" where
  "risk_assessment data =
    (let risk = ''Medium Risk'' in
     case (truthy_number (pe_ratio data), truthy_number (roe data)) of
       (Some pe, Some r) \<Rightarrow>
         if js_lt pe (Fin 20) \<and> js_gt r (Fin 15) then ''Low Risk''
         else if js_gt pe (Fin 50) then ''High Risk''
         else risk
     | _ \<Rightarrow> risk)"

text \<open>
  \<^verbatim>\<open>generateSummary\<close> from the market cap on (lines 304 to 338), applied to the array
  \<^verbatim>\<open>summary\<close> as the lines before have left it. Every substitution of these templates is
  the text of a number's \<^verbatim>\<open>toFixed\<close> or \<^verbatim>\<open>toLocaleString\<close> or one of the fixed words, so
  nothing here throws.
\<close>

definition summary_rest :: "builtins \<Rightarrow> combined \<Rightarrow> string list \<Rightarrow> string list" where
  "summary_rest rt data summary0 =
    (let summary =
           (case truthy_number (market_cap data) of
              Some n \<Rightarrow>
                push summary0 (office @ '' Market Cap: '' @ rupee @ toLocaleString_enIN rt n @ '' Cr'')
            | None \<Rightarrow> summary0);
         summary =
           (case truthy_number (pe_ratio data) of
              Some n \<Rightarrow>
                push summary
                  (bar_chart @ '' P/E Ratio: '' @ toFixed2 rt n @ '' ('' @ pe_valuation n @ '')'')
            | None \<Rightarrow> summary);
         summary =
           (case truthy_number (roe data) of
              Some n \<Rightarrow> push summary (chart_yen @ '' Return on Equity: '' @ toFixed2 rt n @ ''%'')
            | None \<Rightarrow> summary);
         summary =
           (case truthy_number (book_value data) of
              Some n \<Rightarrow> push summary (open_book @ '' Book Value: '' @ rupee @ toFixed2 rt n)
            | None \<Rightarrow> summary);
         summary = push summary (warning_sign @ '' Risk Level: '' @ risk_assessment data)
     in summary)"

text \<open>
  The array \<^verbatim>\<open>summary\<close> of \<^verbatim>\<open>generateSummary\<close> when it is joined (lines 286 to 338), or
  the error thrown on the way: the title converts the company name to text, and the
  change line passes the change percent to \<^verbatim>\<open>parseFloat\<close> and converts it to text.
\<close>

definition summary_lines :: "builtins \<Rightarrow> scraper \<Rightarrow> combined \<Rightarrow> js_error + string list" where
  "summary_lines rt this data =
    (let summary = [] in
     case template rt (bar_chart @ '' '')
            [(js_or (company_name data) (JStr (stockSymbol this)), [])] of
       Inl err \<Rightarrow> Inl err
     | Inr title \<Rightarrow>
         (let summary = push summary title;
              summary =
                (case truthy_number (current_price data) of
                   Some n \<Rightarrow>
                     push summary (money_bag @ '' Current Price: '' @ rupee @ toFixed2 rt n)
                 | None \<Rightarrow> push summary (money_bag @ '' Current Price: N/A''))
          in if js_truthy (change_percent data) then
               (case parseFloat rt (change_percent data) of
                  Inl err \<Rightarrow> Inl err
                | Inr x \<Rightarrow>
                    (let direction = (if js_ge x (Fin 0) then ''UP'' else ''DOWN'') in
                     case template rt (chart_up @ '' Today'' @ [CHR 0x27] @ ''s Change: '')
                            [(change_percent data, ''% ''), (JStr direction, [])] of
                       Inl err \<Rightarrow> Inl err
                     | Inr line \<Rightarrow> Inr (summary_rest rt data (push summary line))))
             else Inr (summary_rest rt data summary)))"

definition generateSummary :: "builtins \<Rightarrow> scraper \<Rightarrow> js_error + string \<times> scraper" where
  "generateSummary rt this0 =
    (let (data, this) = getCombinedData this0 in
     case summary_lines rt this data of
       Inl err \<Rightarrow> Inl err
     | Inr lines \<Rightarrow>
         (let joined = join newline lines
          in Inr (joined, this\<lparr>summary := JStr joined\<rparr>)))"

subsection \<open>generateBasicSummary\<close>

text \<open>The local variables \<^verbatim>\<open>valuation\<close> and \<^verbatim>\<open>riskLevel\<close> (lines 425 to 434).\<close>

definition basic_valuation :: "combined \<Rightarrow> string" where
  "basic_valuation data =
    (let valuation = ''Fair'' in
     case truthy_number (pe_ratio data) of
       Some pe \<Rightarrow>
         if js_lt pe (Fin 15) then ''Cheap (Low P/E)''
         else if js_gt pe (Fin 30) then ''Expensive (High P/E)''
         else valuation
     | None \<Rightarrow> valuation)"

definition basic_riskLevel :: "combined \<Rightarrow> string" where
  "basic_riskLevel data =
    (let riskLevel = ''Moderate'' in
     case truthy_number (pe_ratio data) of
       Some pe \<Rightarrow>
         if js_gt pe (Fin 50) then ''High''
         else if js_lt pe (Fin 20) then ''Low-Moderate''
         else riskLevel
     | None \<Rightarrow> riskLevel)"

text \<open>
  The arrays \<^verbatim>\<open>strengths\<close> and \<^verbatim>\<open>concerns\<close>, built together (lines 436 to 457), or the
  error thrown by \<^verbatim>\<open>parseFloat\<close> of the change percent.
\<close>

definition strengths_concerns ::
  "builtins \<Rightarrow> combined \<Rightarrow> js_error + string list \<times> string list" where
  "strengths_concerns rt data =
    (let strengths = [];
         concerns = [];
         (strengths, concerns) =
           (case truthy_number (roe data) of
              Some r \<Rightarrow>
                if js_gt r (Fin 15)
                then (push strengths ''Good ROE indicating profitability'', concerns)
                else (strengths, push concerns ''Low ROE, profitability concerns'')
            | None \<Rightarrow> (strengths, concerns));
         strengths =
           (case truthy_number (market_cap data) of
              Some m \<Rightarrow>
                if js_gt m (Fin 100000) then push strengths ''Large-cap stock, stable''
                else strengths
            | None \<Rightarrow> strengths);
         finish = (\<lambda>(strengths, concerns).
           (if length strengths = 0 then push strengths ''Data limited for full analysis''
            else strengths,
            if length concerns = 0 then push concerns ''Limited historical data available''
            else concerns))
     in if js_truthy (change_percent data) then
          (case parseFloat rt (change_percent data) of
             Inl err \<Rightarrow> Inl err
           | Inr x \<Rightarrow>
               if js_gt x (Fin 0)
               then Inr (finish (push strengths ''Positive price momentum'', concerns))
               else Inr (finish (strengths, push concerns ''Recent price decline'')))
        else Inr (finish (strengths, concerns)))"

text \<open>The items of \<^verbatim>\<open>strengths\<close> or \<^verbatim>\<open>concerns\<close>, each behind \<^verbatim>\<open>* \<close>, joined by newlines.\<close>

definition bullet_list :: "string list \<Rightarrow> string" where
  "bullet_list items = join newline (map (\<lambda>s. ''* '' @ s) items)"

definition generateBasicSummary :: "builtins \<Rightarrow> scraper \<Rightarrow> combined \<Rightarrow> js_error + string" where
  "generateBasicSummary rt this data =
    (let valuation = basic_valuation data;
         riskLevel = basic_riskLevel data
     in case strengths_concerns rt data of
          Inl err \<Rightarrow> Inl err
        | Inr (strengths, concerns) \<Rightarrow>
            (let sourcesCount = length (map fst (sources this));
                 priceStr =
                   (case truthy_number (current_price data) of
                      Some n \<Rightarrow> rupee @ toFixed2 rt n
                    | None \<Rightarrow> ''N/A'')
             in template rt ''Stock: ''
                  [(company_name data, '' (''),
                   (JStr (stockSymbol this), '')'' @ newline @ ''Current Price: ''),
                   (JStr priceStr, ''  |  Change: ''),
                   (js_or (change_percent data) (JStr ''N/A''),
                      ''%'' @ newline @ ''Valuation: ''),
                   (JStr valuation, newline @ ''Risk Level: ''),
                   (JStr riskLevel, newline @ ''Strengths:'' @ newline),
                   (JStr (bullet_list strengths), newline @ ''Concerns:'' @ newline),
                   (JStr (bullet_list concerns), newline @ ''Data Reliability: ''),
                   (JStr (if 2 \<le> sourcesCount then ''Good'' else ''Fair''), '' (''),
                   (JNum (Fin (real sourcesCount)), '' Sources Verified)'')]))"

section \<open>The environment of one request\<close>

text \<open>
  Everything the request receives from outside. Each extractor method
  (\<^verbatim>\<open>fetchYahooFinanceData\<close>, \<^verbatim>\<open>fetchNSEData\<close>, \<^verbatim>\<open>scrapeScreener\<close>) wraps its body in
  \<^verbatim>\<open>try\<close>/\<^verbatim>\<open>catch\<close>: it sends one request, and either it builds an object literal,
  stores it under its key of \<^verbatim>\<open>this.data.sources\<close> and returns it, or it catches the
  error and returns \<^verbatim>\<open>null\<close>. The properties of the object it builds are the
  environment's answer (\<open>None\<close> for the caught error). The three run concurrently;
  \<open>settled\<close> is the order in which they complete, one of the six orders of three.
  \<open>OPENAI_API_KEY\<close> is the value of \<^verbatim>\<open>process.env.OPENAI_API_KEY\<close>, and \<open>openai\<close> is what
  the call to the enrichment service ends with: the text read from the response, or a
  thrown error. A \<open>request\<close> is a call sent over the network: the fetch of an extractor
  or the enrichment call.
\<close>

datatype extractor = Yahoo | NSE | Screener

datatype settle_order = YNS | YSN | NYS | NSY | SYN | SNY

fun order_list :: "settle_order \<Rightarrow> extractor list" where
  "order_list YNS = [Yahoo, NSE, Screener]"
| "order_list YSN = [Yahoo, Screener, NSE]"
| "order_list NYS = [NSE, Yahoo, Screener]"
| "order_list NSY = [NSE, Screener, Yahoo]"
| "order_list SYN = [Screener, Yahoo, NSE]"
| "order_list SNY = [Screener, NSE, Yahoo]"

datatype openai_outcome = Content jsval | Throws js_error

datatype request = Fetch extractor | Enrich

record world =
  yahoo_data :: "(string \<times> jsval) list option"
  nse_data :: "(string \<times> jsval) list option"
  screener_data :: "(string \<times> jsval) list option"
  settled :: settle_order
  OPENAI_API_KEY :: jsval
  openai :: openai_outcome

subsection \<open>The extractors and scrapeAllSources\<close>

definition fetchYahooFinanceData :: "world \<Rightarrow> scraper \<Rightarrow> jsval \<times> scraper" where
  "fetchYahooFinanceData w this =
    (case yahoo_data w of
       Some d \<Rightarrow> (JObj d, this\<lparr>sources := set_prop ''yahoo_finance'' (JObj d) (sources this)\<rparr>)
     | None \<Rightarrow> (JNull, this))"

definition fetchNSEData :: "world \<Rightarrow> scraper \<Rightarrow> jsval \<times> scraper" where
  "fetchNSEData w this =
    (case nse_data w of
       Some d \<Rightarrow> (JObj d, this\<lparr>sources := set_prop ''nse'' (JObj d) (sources this)\<rparr>)
     | None \<Rightarrow> (JNull, this))"

definition scrapeScreener :: "world \<Rightarrow> scraper \<Rightarrow> jsval \<times> scraper" where
  "scrapeScreener w this =
    (case screener_data w of
       Some d \<Rightarrow> (JObj d, this\<lparr>sources := set_prop ''screener'' (JObj d) (sources this)\<rparr>)
     | None \<Rightarrow> (JNull, this))"

fun run_extractor :: "world \<Rightarrow> extractor \<Rightarrow> scraper \<Rightarrow> jsval \<times> scraper" where
  "run_extractor w Yahoo this = fetchYahooFinanceData w this"
| "run_extractor w NSE this = fetchNSEData w this"
| "run_extractor w Screener this = scrapeScreener w this"


text \<open>
  \<^verbatim>\<open>Promise.allSettled\<close> waits for the three calls, started in the order of the array
  literal. No call rejects (each catches its own errors), so every status is
  \<^verbatim>\<open>'fulfilled'\<close> and \<open>results\<close> holds the three returned values in that order, while
  the writes to \<^verbatim>\<open>this.data.sources\<close> happen in the order of completion. The second
  component is the list of requests sent.
\<close>

definition scrapeAllSources :: "world \<Rightarrow> scraper \<Rightarrow> (js_error + scraper) \<times> request list" where
  "scrapeAllSources w this =
    (let requests = map Fetch [Yahoo, NSE, Screener];
         this' = fold (\<lambda>e s. snd (run_extractor w e s)) (order_list (settled w)) this;
         results = map (\<lambda>e. fst (run_extractor w e this)) [Yahoo, NSE, Screener];
         successCount = length (filter (\<lambda>v. v \<noteq> JNull) results)
     in if successCount = 0
        then (Inl (Error (''Unable to fetch data from any source. '' @
                          ''Stock symbol might be invalid or services are unavailable.'')),
              requests)
        else (Inr this', requests))"

subsection \<open>generateFinalSummary\<close>

text \<open>
  The prompt (lines 347 to 377): a template literal evaluated before the \<^verbatim>\<open>try\<close> block,
  so an error thrown by one of its conversions leaves \<^verbatim>\<open>generateFinalSummary\<close>.
\<close>

definition prompt_text :: "builtins \<Rightarrow> scraper \<Rightarrow> combined \<Rightarrow> js_error + string" where
  "prompt_text rt this data =
    template rt
      (''You are a professional stock analyst. Analyze the following'' @
         '' stock data and provide a concise summary in this EXACT'' @ '' format:'' @
         newline @ newline @ ''Stock: '')
      [(company_name data,
            '' (''),
       (JStr (stockSymbol this),
            '')'' @ newline @ ''Current Price: '' @ rupee),
       (js_or (current_price data) (JStr ''N/A''),
            ''  |  Change: ''),
       (js_or (change_percent data) (JStr ''N/A''),
            ''%'' @ newline @ ''Valuation: [Cheap/Fair/Expensive] (explain briefly)'' @
            newline @ ''Risk Level: [Low/Moderate/High]'' @ newline @ ''Strengths:'' @
            newline @ ''* [strength 1]'' @ newline @ ''* [strength 2]'' @ newline @
            ''Concerns:'' @ newline @ ''* [concern 1]'' @ newline @ ''* [concern 2]'' @
            newline @
            ''Data Reliability: [Good/Fair/Limited] ([X] Sources Verified)'' @
            newline @ newline @ ''Stock Data:'' @ newline @ ''- Stock Symbol: ''),
       (JStr (stockSymbol this),
            newline @ ''- Company Name: ''),
       (js_or (company_name data) (JStr ''N/A''),
            newline @ ''- Current Price: '' @ rupee),
       (js_or (current_price data) (JStr ''N/A''),
            newline @ ''- Price Change: ''),
       (js_or (change_percent data) (JStr ''N/A''),
            ''%'' @ newline @ ''- P/E Ratio: ''),
       (js_or (pe_ratio data) (JStr ''N/A''),
            newline @ ''- Return on Equity (ROE): ''),
       (js_or (roe data) (JStr ''N/A''),
            ''%'' @ newline @ ''- Market Cap: '' @ rupee),
       (js_or (market_cap data) (JStr ''N/A''),
            '' Cr'' @ newline @ ''- Book Value: '' @ rupee),
       (js_or (book_value data) (JStr ''N/A''),
            newline @ newline @ ''Instructions:'' @ newline @
            ''1. Keep the response concise and professional'' @ newline @
            ''2. Valuation should be based on P/E ratio: <15 = Cheap,'' @
            '' 15-30 = Fair, >30 = Expensive'' @ newline @
            ''3. Risk level should consider P/E, market cap, and'' @ '' volatility'' @
            newline @ ''4. List 2-3 strengths and 2-3 concerns based on the metrics'' @
            newline @ ''5. Data reliability based on how many metrics are available'' @
            newline @ ''6. Use the exact format shown above'')]"

text \<open>
  The object returned by \<^verbatim>\<open>generateFinalSummary\<close>; a property the object literal does not
  have reads as \<^verbatim>\<open>undefined\<close>.
\<close>

record final_summary =
  fs_summary :: jsval
  fs_prompt :: string
  fs_model :: jsval
  fs_error :: jsval

text \<open>
  The \<^verbatim>\<open>catch\<close> block (lines 414 to 421): the fallback text with the message of the caught
  error; an error thrown by \<^verbatim>\<open>generateBasicSummary\<close> here is not caught.
\<close>

definition final_catch ::
  "builtins \<Rightarrow> scraper \<Rightarrow> combined \<Rightarrow> string \<Rightarrow> js_error \<Rightarrow> js_error + final_summary" where
  "final_catch rt this data prompt err =
    (case generateBasicSummary rt this data of
       Inl err2 \<Rightarrow> Inl err2
     | Inr basic \<Rightarrow>
         Inr \<lparr>fs_summary = JStr basic, fs_prompt = prompt, fs_model = JUndefined,
              fs_error = JStr (message err)\<rparr>)"

text \<open>
  The result or the error that leaves the method, the scraper (its \<^verbatim>\<open>combined_data\<close>
  rewritten by \<^verbatim>\<open>getCombinedData\<close>), and the requests sent: the enrichment call, when the
  prompt was built and the key is there.
\<close>

definition generateFinalSummary ::
  "builtins \<Rightarrow> world \<Rightarrow> scraper \<Rightarrow> (js_error + final_summary) \<times> scraper \<times> request list" where
  "generateFinalSummary rt w this0 =
    (let (data, this) = getCombinedData this0 in
     case prompt_text rt this data of
       Inl err \<Rightarrow> (Inl err, this, [])
     | Inr prompt \<Rightarrow>
         if \<not> js_truthy (OPENAI_API_KEY w) then
           (case generateBasicSummary rt this data of
              Inl err \<Rightarrow> (final_catch rt this data prompt err, this, [])
            | Inr basic \<Rightarrow>
                (Inr \<lparr>fs_summary = JStr basic, fs_prompt = prompt, fs_model = JUndefined,
                      fs_error = JStr ''OpenAI API key not configured''\<rparr>, this, []))
         else
           (case openai w of
              Content aiSummary \<Rightarrow>
                (Inr \<lparr>fs_summary = aiSummary, fs_prompt = prompt,
                      fs_model = JStr ''gpt-3.5-turbo'', fs_error = JUndefined\<rparr>, this, [Enrich])
            | Throws err \<Rightarrow> (final_catch rt this data prompt err, this, [Enrich])))"

subsection \<open>getSourcesList\<close>

definition sourceNames :: "(string \<times> string) list" where
  "sourceNames =
    [(''yahoo_finance'', ''Yahoo Finance''), (''nse'', ''NSE India''),
     (''screener'', ''Screener.in''), (''moneycontrol'', ''MoneyControl'')]"

definition getSourcesList :: "scraper \<Rightarrow> string list" where
  "getSourcesList this =
    map (\<lambda>key. case map_of sourceNames key of Some name \<Rightarrow> name | None \<Rightarrow> key)
        (map fst (sources this))"

section \<open>The endpoint POST /api/analyze\<close>

text \<open>
  The JSON body of a successful answer (\<^verbatim>\<open>success: true\<close>), without \<^verbatim>\<open>timestamp\<close>; and
  the answer of the handler: that body, or a status code with
  \<^verbatim>\<open>{success: false, error}\<close>.
\<close>

record report =
  res_symbol :: string
  res_summary :: jsval
  final_summary :: jsval
  ai_prompt :: string
  ai_model :: jsval
  ai_error :: jsval
  res_sources :: "string list"
  raw_data :: "(string \<times> jsval) list"
  res_combined_data :: combined

datatype response = Ok report | Failed nat string

text \<open>
  The method call \<^verbatim>\<open>stockSymbol.toUpperCase()\<close> of the constructor: only a string has the
  method (the wording of the messages is the engine's).
\<close>

fun call_toUpperCase :: "builtins \<Rightarrow> jsval \<Rightarrow> js_error + string" where
  "call_toUpperCase rt (JStr s) = Inr (toUpperCase rt s)"
| "call_toUpperCase rt JUndefined =
     Inl (TypeError ''Cannot read properties of undefined (reading toUpperCase)'')"
| "call_toUpperCase rt JNull =
     Inl (TypeError ''Cannot read properties of null (reading toUpperCase)'')"
| "call_toUpperCase rt _ = Inl (TypeError ''stockSymbol.toUpperCase is not a function'')"

text \<open>The \<^verbatim>\<open>catch\<close> block of the handler.\<close>

definition catch_handler :: "js_error \<Rightarrow> response" where
  "catch_handler err =
    Failed 500 (if message err \<noteq> [] then message err
                else ''Internal server error while analyzing stock'')"

text \<open>
  The handler: its answer and the requests sent while it ran. \<open>symbol\<close> is
  \<^verbatim>\<open>req.body.symbol\<close>: any JSON value, or \<^verbatim>\<open>undefined\<close> when the body has no such
  property. The log line of line 501 converts the symbol to text inside the \<^verbatim>\<open>try\<close>
  block, before the constructor runs. The second call \<^verbatim>\<open>symbol.toUpperCase()\<close>, in the
  response, repeats the constructor's call on the same string, and the log lines of
  lines 522 and 523 convert a string and join strings.
\<close>

definition analyze :: "builtins \<Rightarrow> world \<Rightarrow> jsval \<Rightarrow> response \<times> request list" where
  "analyze rt w symbol =
    (if \<not> js_truthy symbol then (Failed 400 ''Stock symbol is required'', [])
     else
       (case template rt ''Analyzing stock: '' [(symbol, [])] of
          Inl err \<Rightarrow> (catch_handler err, [])
        | Inr logged \<Rightarrow>
       (case call_toUpperCase rt symbol of
          Inl err \<Rightarrow> (catch_handler err, [])
        | Inr upper \<Rightarrow>
       (case scrapeAllSources w (new_scraper upper) of
          (Inl err, fetches) \<Rightarrow> (catch_handler err, fetches)
        | (Inr scraper1, fetches) \<Rightarrow>
       (case generateSummary rt scraper1 of
          Inl err \<Rightarrow> (catch_handler err, fetches)
        | Inr (s, scraper2) \<Rightarrow>
       (case generateFinalSummary rt w scraper2 of
          (Inl err, scraper3, calls) \<Rightarrow> (catch_handler err, fetches @ calls)
        | (Inr finalSummary, scraper3, calls) \<Rightarrow>
            (Ok \<lparr>res_symbol = upper,
                 res_summary = summary scraper3,
                 final_summary = fs_summary finalSummary,
                 ai_prompt = fs_prompt finalSummary,
                 ai_model = js_or (fs_model finalSummary) (JStr ''basic''),
                 ai_error = js_or (fs_error finalSummary) JNull,
                 res_sources = getSourcesList scraper3,
                 raw_data = sources scraper3,
                 res_combined_data = combined_data scraper3\<rparr>,
             fetches @ calls)))))))"

section \<open>Vocabulary of the specification\<close>

subsection \<open>Classification tiers\<close>

text \<open>
  The valuation tiers and the risk tiers as the specification words them, for comparison
  with the code. A ratio or a return on equity is given as \<open>Some\<close> number when it is
  resolved and \<open>None\<close> when it is not. The valuation rule reads: below 15 Cheap; 15 to 30
  inclusive Fair; above 30 and at most 50 Expensive; above 50 Very Expensive; unresolved
  Fair. The risk rule reads: Medium by default; High when the ratio is above 50, checked
  first so that it wins over Low; Low only when the ratio is below 20 and the return on
  equity above 15; an absent input leaves the tier at Medium (the High rule names the
  ratio alone, so an absent return on equity only keeps Low from applying).
\<close>

datatype valuation_tier = Cheap | Fair | Expensive | VeryExpensive



datatype risk_tier = Low | Medium | High

fun risk_name :: "risk_tier \<Rightarrow> string" where
  "risk_name Low = ''Low Risk''"
| "risk_name Medium = ''Medium Risk''"
| "risk_name High = ''High Risk''"

definition spec_risk_tier :: "jsnum option \<Rightarrow> jsnum option \<Rightarrow> risk_tier" where
  "spec_risk_tier ratio return_on_equity =
    (case ratio of
       None \<Rightarrow> Medium
     | Some p \<Rightarrow>
         if js_gt p (Fin 50) then High
         else (case return_on_equity of
                 None \<Rightarrow> Medium
               | Some r \<Rightarrow> if js_lt p (Fin 20) \<and> js_gt r (Fin 15) then Low else Medium))"

subsection \<open>What a source provides, and the merged record\<close>

text \<open>
  The value a source provides for a field is the operand \<^verbatim>\<open>getCombinedData\<close> reads for
  it: a property of the object stored under \<^verbatim>\<open>yahoo_finance\<close> or \<^verbatim>\<open>nse\<close>, or of the
  \<^verbatim>\<open>company_info\<close> and \<^verbatim>\<open>ratios\<close> objects of the one stored under \<^verbatim>\<open>screener\<close>.
  A value is absent when it is \<^verbatim>\<open>undefined\<close> or \<^verbatim>\<open>null\<close>.
\<close>

definition yahoo_value :: "scraper \<Rightarrow> string \<Rightarrow> jsval" where
  "yahoo_value this field = opt_chain (get_prop (sources this) ''yahoo_finance'') field"

definition nse_value :: "scraper \<Rightarrow> string \<Rightarrow> jsval" where
  "nse_value this field = opt_chain (get_prop (sources this) ''nse'') field"

definition screener_info :: "scraper \<Rightarrow> string \<Rightarrow> jsval" where
  "screener_info this field =
     opt_chain (opt_chain (get_prop (sources this) ''screener'') ''company_info'') field"

definition screener_ratio :: "scraper \<Rightarrow> string \<Rightarrow> jsval" where
  "screener_ratio this field =
     opt_chain (opt_chain (get_prop (sources this) ''screener'') ''ratios'') field"

definition absent :: "jsval \<Rightarrow> bool" where
  "absent v = (v = JUndefined \<or> v = JNull)"

definition merged :: "scraper \<Rightarrow> combined" where
  "merged this = fst (getCombinedData this)"

text \<open>
  A priority list read the way \<^verbatim>\<open>a || b || c\<close> evaluates: the first truthy entry, and
  the last entry when none is truthy.
\<close>

fun first_truthy :: "jsval list \<Rightarrow> jsval" where
  "first_truthy [] = JUndefined"
| "first_truthy [v] = v"
| "first_truthy (v # vs) = (if js_truthy v then v else first_truthy vs)"

subsection \<open>Values that convert to text\<close>

text \<open>
  A value converts to text when \<^verbatim>\<open>ToString\<close> does not throw on it: every primitive
  does, an object does unless it has an own property \<^verbatim>\<open>toString\<close>, an array does when
  its elements do. \<open>rendered\<close> is the text of a value that converts. A merged record is
  printable when each of its seven values converts: they are the values the templates
  of the summary, of the fallback summary and of the prompt convert.
\<close>

fun convertible :: "jsval \<Rightarrow> bool" where
  "convertible (JObj ps) = (map_of ps ''toString'' = None)"
| "convertible (JArr xs) = list_all convertible xs"
| "convertible _ = True"

definition rendered :: "builtins \<Rightarrow> jsval \<Rightarrow> string" where
  "rendered rt v = (case toString rt v of Inr s \<Rightarrow> s | Inl err \<Rightarrow> [])"

definition printable :: "combined \<Rightarrow> bool" where
  "printable data =
    (convertible (current_price data) \<and> convertible (change_percent data) \<and>
     convertible (company_name data) \<and> convertible (market_cap data) \<and>
     convertible (pe_ratio data) \<and> convertible (roe data) \<and> convertible (book_value data))"

text \<open>The results of the three renderers when they do not throw.\<close>

definition lines_of :: "builtins \<Rightarrow> scraper \<Rightarrow> combined \<Rightarrow> string list" where
  "lines_of rt this data = (case summary_lines rt this data of Inr ls \<Rightarrow> ls | Inl err \<Rightarrow> [])"

definition basic_text :: "builtins \<Rightarrow> scraper \<Rightarrow> combined \<Rightarrow> string" where
  "basic_text rt this data =
    (case generateBasicSummary rt this data of Inr t \<Rightarrow> t | Inl err \<Rightarrow> [])"

definition prompt_of :: "builtins \<Rightarrow> scraper \<Rightarrow> combined \<Rightarrow> string" where
  "prompt_of rt this data = (case prompt_text rt this data of Inr t \<Rightarrow> t | Inl err \<Rightarrow> [])"

definition strengths_of :: "builtins \<Rightarrow> combined \<Rightarrow> string list" where
  "strengths_of rt data =
    (case strengths_concerns rt data of Inr (st, co) \<Rightarrow> st | Inl err \<Rightarrow> [])"

definition concerns_of :: "builtins \<Rightarrow> combined \<Rightarrow> string list" where
  "concerns_of rt data =
    (case strengths_concerns rt data of Inr (st, co) \<Rightarrow> co | Inl err \<Rightarrow> [])"

subsection \<open>Outcomes of a request\<close>

text \<open>
  An extractor succeeded when the environment answered it with data. \<open>stored\<close> is the
  \<^verbatim>\<open>sources\<close> object those answers leave behind, \<open>scraped\<close> the scraper after
  \<^verbatim>\<open>scrapeAllSources\<close>, \<open>fetches\<close> the three requests of the extractors. The two failures
  the specification names are the answers with status 400 and with status 500 carrying
  the message of the error thrown by \<^verbatim>\<open>scrapeAllSources\<close>; \<open>ConversionFailed\<close> is the
  answer to the error of a conversion to text.
\<close>

fun data_of :: "world \<Rightarrow> extractor \<Rightarrow> (string \<times> jsval) list option" where
  "data_of w Yahoo = yahoo_data w"
| "data_of w NSE = nse_data w"
| "data_of w Screener = screener_data w"

definition succeeded :: "world \<Rightarrow> extractor \<Rightarrow> bool" where
  "succeeded w e = (data_of w e \<noteq> None)"

fun source_key :: "extractor \<Rightarrow> string" where
  "source_key Yahoo = ''yahoo_finance''"
| "source_key NSE = ''nse''"
| "source_key Screener = ''screener''"

fun display_name :: "extractor \<Rightarrow> string" where
  "display_name Yahoo = ''Yahoo Finance''"
| "display_name NSE = ''NSE India''"
| "display_name Screener = ''Screener.in''"

definition stored :: "world \<Rightarrow> (string \<times> jsval) list" where
  "stored w =
     concat (map (\<lambda>e. case data_of w e of Some d \<Rightarrow> [(source_key e, JObj d)] | None \<Rightarrow> [])
                 (order_list (settled w)))"

definition scraped :: "builtins \<Rightarrow> world \<Rightarrow> string \<Rightarrow> scraper" where
  "scraped rt w s = (new_scraper (toUpperCase rt s))\<lparr>sources := stored w\<rparr>"

definition fetches :: "request list" where
  "fetches = [Fetch Yahoo, Fetch NSE, Fetch Screener]"

definition all_failed_message :: string where
  "all_failed_message =
     ''Unable to fetch data from any source. '' @
     ''Stock symbol might be invalid or services are unavailable.''"

definition InvalidSymbol :: response where
  "InvalidSymbol = Failed 400 ''Stock symbol is required''"

definition AllSourcesFailed :: response where
  "AllSourcesFailed = Failed 500 all_failed_message"

definition ConversionFailed :: response where
  "ConversionFailed = Failed 500 ''Cannot convert object to primitive value''"

text \<open>
  The enrichment fails when the key is missing (falsy) or the call throws; the reason is
  the fixed text of the first case or the message of the thrown error.
\<close>

definition enrichment_failed :: "world \<Rightarrow> bool" where
  "enrichment_failed w =
    (if js_truthy (OPENAI_API_KEY w)
     then (case openai w of Throws err \<Rightarrow> True | Content c \<Rightarrow> False)
     else True)"

definition fallback_reason :: "world \<Rightarrow> string" where
  "fallback_reason w =
    (if js_truthy (OPENAI_API_KEY w)
     then (case openai w of Throws err \<Rightarrow> message err | Content c \<Rightarrow> [])
     else ''OpenAI API key not configured'')"

text \<open>
  The report of an answer, when it has one; and the head of the P/E line, with the P/E
  lines of a summary: the lines after the title that begin with it.
\<close>

fun the_report :: "response \<Rightarrow> report option" where
  "the_report (Ok r) = Some r"
| "the_report (Failed status msg) = None"



section \<open>Example inputs\<close>

text \<open>
  The built-ins at the arguments the examples below use (\<^verbatim>\<open>(100).toFixed(2)\<close> is
  \<^verbatim>\<open>"100.00"\<close>, \<^verbatim>\<open>(250000).toLocaleString('en-IN')\<close> is \<^verbatim>\<open>"2,50,000"\<close>,
  \<^verbatim>\<open>parseFloat("1.25")\<close> is \<^verbatim>\<open>1.25\<close>, \<^verbatim>\<open>parseFloat("NaN")\<close> is \<^verbatim>\<open>NaN\<close>, and so on);
  at every other argument they return a marker.
\<close>

definition example_builtins :: builtins where
  "example_builtins =
    \<lparr>toFixed2 = (\<lambda>n.
       if n = Fin 14.99 then ''14.99'' else if n = Fin 10 then ''10.00''
       else if n = Fin 20 then ''20.00'' else if n = Fin 60 then ''60.00''
       else if n = Fin 100 then ''100.00'' else ''?''),
     toLocaleString_enIN = (\<lambda>n. if n = Fin 250000 then ''2,50,000'' else ''?''),
     numberToString = (\<lambda>n.
       if n = Fin 1 then ''1'' else if n = Fin 2 then ''2'' else if n = Fin 3 then ''3''
       else if n = Fin 10 then ''10'' else if n = Fin 20 then ''20''
       else if n = Fin 100 then ''100'' else if n = Fin 250000 then ''250000''
       else ''?''),
     parseFloatString = (\<lambda>s.
       if s = ''1.25'' then Fin 1.25 else if s = ''-0.50'' then Fin (- 0.5)
       else if s = ''0.00'' then Fin 0 else NaN),
     toUpperCase = (\<lambda>s. if s = ''tcs'' then ''TCS'' else s)\<rparr>"


definition three_priced_scraper :: scraper where
  "three_priced_scraper = (new_scraper ''TCS'')\<lparr>sources :=
     [(''yahoo_finance'',
        JObj [(''current_price'', JNum (Fin 100)), (''change_percent'', JStr ''1.25'')]),
      (''nse'', JObj [(''current_price'', JNum (Fin 101))]),
      (''screener'',
        JObj [(''company_info'', JObj [(''price'', JNum (Fin 102))]),
              (''financials'', JObj []), (''ratios'', JObj [])])]\<rparr>"

definition yahoo_priced_scraper :: scraper where
  "yahoo_priced_scraper = (new_scraper ''TCS'')\<lparr>sources :=
     [(''yahoo_finance'',
        JObj [(''current_price'', JNum (Fin 100)), (''change_percent'', JStr ''NaN'')]),
      (''nse'', JObj [(''current_price'', JNum (Fin 101))])]\<rparr>"

definition nse_priced_scraper :: scraper where
  "nse_priced_scraper = (new_scraper ''TCS'')\<lparr>sources :=
     [(''yahoo_finance'',
        JObj [(''current_price'', JUndefined), (''change_percent'', JStr ''NaN'')]),
      (''nse'', JObj [(''current_price'', JNum (Fin 100))])]\<rparr>"

definition yahoo_only_scraper :: scraper where
  "yahoo_only_scraper = (new_scraper ''TCS'')\<lparr>sources :=
     [(''yahoo_finance'',
        JObj [(''current_price'', JNum (Fin 100)), (''change_percent'', JStr ''1.25'')])]\<rparr>"


text \<open>
  A request for which Yahoo and Screener answer, Screener first, the exchange fails and
  no key is configured; the same with a key and a call that throws, with a message and
  with an empty one; a request for which every extractor fails; and a request for which
  only the exchange answers, with an object that has an own \<^verbatim>\<open>toString\<close> property where
  the company name is expected.
\<close>

definition example_world :: world where
  "example_world =
    \<lparr>yahoo_data = Some [(''current_price'', JNum (Fin 100)), (''change_percent'', JStr ''1.25'')],
     nse_data = None,
     screener_data = Some
       [(''company_info'', JObj [(''name'', JStr ''Tata Consultancy Services Ltd''),
                                 (''price'', JNum (Fin 100))]),
        (''financials'', JObj []),
        (''ratios'', JObj [(''market_cap'', JNum (Fin 250000)), (''pe_ratio'', JNum (Fin 10)),
                           (''roe'', JNum (Fin 20))])],
     settled = SYN,
     OPENAI_API_KEY = JUndefined,
     openai = Throws (Error ''Network Error'')\<rparr>"

definition throwing_world :: world where
  "throwing_world = example_world\<lparr>OPENAI_API_KEY := JStr ''sk-example'',
     openai := Throws (Error ''timeout of 15000ms exceeded'')\<rparr>"

definition offline_world :: world where
  "offline_world = example_world\<lparr>yahoo_data := None, screener_data := None\<rparr>"

definition silent_error_world :: world where
  "silent_error_world = example_world\<lparr>OPENAI_API_KEY := JStr ''sk-example'',
     openai := Throws (Error [])\<rparr>"

definition object_name_world :: world where
  "object_name_world = example_world\<lparr>yahoo_data := None, screener_data := None,
     settled := NYS,
     nse_data := Some
       [(''current_price'', JNum (Fin 100)), (''change_percent'', JNum (Fin 1.25)),
        (''company_name'', JObj [(''toString'', JNum (Fin 1))])]\<rparr>"

text \<open>
  Merged records: a complete one; one whose company name is such an object; one whose
  change percent is Yahoo's \<^verbatim>\<open>"NaN"\<close>; one with a ratio of 60 and no return on equity.
\<close>

definition example_data :: combined where
  "example_data =
    \<lparr>current_price = JNum (Fin 100), change_percent = JStr ''1.25'',
     company_name = JStr ''Tata Consultancy Services Ltd'', market_cap = JNum (Fin 250000),
     pe_ratio = JNum (Fin 10), roe = JNum (Fin 20), book_value = JUndefined\<rparr>"




section \<open>Properties of the model\<close>

subsection \<open>Conversion to text\<close>

lemma sequence_uniform:
  assumes "\<forall>r \<in> set rs. (\<exists>x. r = Inr x) \<or> r = Inl e"
  shows "if \<forall>r \<in> set rs. \<exists>x. r = Inr x then \<exists>xs. sequence rs = Inr xs
         else sequence rs = Inl e"
  using assms
proof (induction rs)
  case Nil
  then show ?case by simp
next
  case (Cons r rs)
  show ?case
  proof (cases r)
    case (Inl a)
    with Cons.prems have "a = e" by auto
    with Inl show ?thesis by auto
  next
    case (Inr x)
    from Cons.prems have "\<forall>r \<in> set rs. (\<exists>x. r = Inr x) \<or> r = Inl e" by simp
    from Cons.IH [OF this] Inr show ?thesis
      by (auto split: if_splits)
  qed
qed

lemma toString_cases:
  "(convertible v \<longrightarrow> (\<exists>s. toString rt v = Inr s)) \<and>
   (\<not> convertible v \<longrightarrow> toString rt v = Inl conversion_error)"
proof (induction v)
  case (JArr xs)
  let ?f = "\<lambda>x. if x = JUndefined \<or> x = JNull then Inr [] else toString rt x"
  have each: "\<forall>r \<in> set (map ?f xs). (\<exists>x. r = Inr x) \<or> r = Inl conversion_error"
  proof
    fix r assume "r \<in> set (map ?f xs)"
    then obtain x where x: "x \<in> set xs" and r: "r = ?f x" by auto
    from JArr [OF x] show "(\<exists>y. r = Inr y) \<or> r = Inl conversion_error"
      unfolding r by (cases "convertible x") auto
  qed
  have all: "(\<forall>r \<in> set (map ?f xs). \<exists>x. r = Inr x) = list_all convertible xs"
  proof
    assume a: "\<forall>r \<in> set (map ?f xs). \<exists>x. r = Inr x"
    show "list_all convertible xs"
      unfolding list_all_iff
    proof
      fix x assume x: "x \<in> set xs"
      from a x have "\<exists>y. ?f x = Inr y" by auto
      with JArr [OF x] show "convertible x"
        by (cases "x = JUndefined \<or> x = JNull") auto
    qed
  next
    assume "list_all convertible xs"
    then show "\<forall>r \<in> set (map ?f xs). \<exists>x. r = Inr x"
      using JArr by (auto simp: list_all_iff)
  qed
  from sequence_uniform [OF each] all show ?case
    by (auto split: if_splits)
next
  case (JObj ps)
  show ?case by (auto split: option.split)
qed simp_all

lemma toString_convertible:
  "toString rt v = (if convertible v then Inr (rendered rt v) else Inl conversion_error)"
  using toString_cases [of v rt] by (auto simp: rendered_def)

lemma parseFloat_convertible:
  "parseFloat rt v =
     (if convertible v then Inr (parseFloatString rt (rendered rt v)) else Inl conversion_error)"
  by (simp add: parseFloat_def toString_convertible)

lemma template_convertible:
  "template rt h subs =
     (if list_all (\<lambda>(v, lit). convertible v) subs
      then Inr (h @ concat (map (\<lambda>(v, lit). rendered rt v @ lit) subs))
      else Inl conversion_error)"
  by (induction subs arbitrary: h) (auto simp: toString_convertible)

lemma convertible_js_or [simp]: "convertible (js_or v (JStr s)) = convertible v"
  by (cases v) (auto simp: js_or_def)

lemma not_convertible_truthy: "\<not> convertible v \<Longrightarrow> js_truthy v"
  by (cases v) auto

lemma rendered_simps [simp]:
  "rendered rt (JStr s) = s"
  "rendered rt (JNum n) = numberToString rt n"
  "rendered rt JUndefined = ''undefined''"
  by (simp_all add: rendered_def)

subsection \<open>Guards, classification and the summary texts\<close>

lemma truthy_number_guard:
  "(truthy_number v = Some n) = (js_truthy v \<and> is_number v \<and> v = JNum n)"
  by (cases v) auto

lemma truthy_number_zero [simp]: "truthy_number (JNum (Fin 0)) = None"
  by simp


lemma low_excludes_high: "js_lt p (Fin 20) \<Longrightarrow> \<not> js_lt (Fin 50) p"
  by (cases p) auto

lemma risk_assessment_spec:
  "truthy_number (roe data) \<noteq> None \<Longrightarrow>
   risk_assessment data =
     risk_name (spec_risk_tier (truthy_number (pe_ratio data)) (truthy_number (roe data)))"
  unfolding risk_assessment_def spec_risk_tier_def Let_def js_gt_def
  by (auto split: option.split dest: low_excludes_high)


lemma summary_rest_layout:
  "summary_rest rt data acc =
     acc
     @ (case truthy_number (market_cap data) of
          Some n \<Rightarrow> [office @ '' Market Cap: '' @ rupee @ toLocaleString_enIN rt n @ '' Cr'']
        | None \<Rightarrow> [])
     @ (case truthy_number (pe_ratio data) of
          Some n \<Rightarrow> [bar_chart @ '' P/E Ratio: '' @ toFixed2 rt n @ '' ('' @ pe_valuation n @ '')'']
        | None \<Rightarrow> [])
     @ (case truthy_number (roe data) of
          Some n \<Rightarrow> [chart_yen @ '' Return on Equity: '' @ toFixed2 rt n @ ''%'']
        | None \<Rightarrow> [])
     @ (case truthy_number (book_value data) of
          Some n \<Rightarrow> [open_book @ '' Book Value: '' @ rupee @ toFixed2 rt n]
        | None \<Rightarrow> [])
     @ [warning_sign @ '' Risk Level: '' @ risk_assessment data]"
  unfolding summary_rest_def Let_def push_def
  by (simp split: option.split)

lemma summary_lines_layout:
  "summary_lines rt this data =
     (if convertible (company_name data) \<and> convertible (change_percent data) then
        Inr ([bar_chart @ '' '' @ rendered rt (js_or (company_name data) (JStr (stockSymbol this))),
              (case truthy_number (current_price data) of
                 Some n \<Rightarrow> money_bag @ '' Current Price: '' @ rupee @ toFixed2 rt n
               | None \<Rightarrow> money_bag @ '' Current Price: N/A'')]
             @ (if js_truthy (change_percent data)
                then [chart_up @ '' Today'' @ [CHR 0x27] @ ''s Change: '' @
                      rendered rt (change_percent data) @ ''% '' @
                      (if js_ge (parseFloatString rt (rendered rt (change_percent data))) (Fin 0)
                       then ''UP'' else ''DOWN'')]
                else [])
             @ summary_rest rt data [])
      else Inl conversion_error)"
  unfolding summary_lines_def Let_def push_def
  using not_convertible_truthy [of "change_percent data"]
  by (auto simp: template_convertible parseFloat_convertible summary_rest_layout
      split: option.split)

lemma summary_lines_state [simp]:
  "summary_lines rt (this\<lparr>combined_data := c\<rparr>) d = summary_lines rt this d"
  "summary_lines rt (this\<lparr>summary := x\<rparr>) d = summary_lines rt this d"
  by (simp_all add: summary_lines_def)

lemma summary_lines_lines_of:
  "convertible (company_name data) \<Longrightarrow> convertible (change_percent data) \<Longrightarrow>
   summary_lines rt this data = Inr (lines_of rt this data)"
  by (simp add: lines_of_def summary_lines_layout)

lemma summary_lines_fails:
  "\<not> (convertible (company_name data) \<and> convertible (change_percent data)) \<Longrightarrow>
   summary_lines rt this data = Inl conversion_error"
  by (simp add: summary_lines_layout)


lemma strengths_concerns_result:
  "strengths_concerns rt data =
     (if convertible (change_percent data)
      then Inr (strengths_of rt data, concerns_of rt data) else Inl conversion_error)"
  using not_convertible_truthy [of "change_percent data"]
  by (auto simp: strengths_of_def concerns_of_def strengths_concerns_def Let_def
      parseFloat_convertible split: option.split prod.split)

lemma generateBasicSummary_layout:
  "generateBasicSummary rt this data =
     (if convertible (company_name data) \<and> convertible (change_percent data) then
        Inr (''Stock: '' @ rendered rt (company_name data) @ '' ('' @ stockSymbol this @ '')'' @
             newline @
             ''Current Price: '' @
               (case truthy_number (current_price data) of
                  Some n \<Rightarrow> rupee @ toFixed2 rt n | None \<Rightarrow> ''N/A'') @
               ''  |  Change: '' @ rendered rt (js_or (change_percent data) (JStr ''N/A'')) @
               ''%'' @ newline @
             ''Valuation: '' @ basic_valuation data @ newline @
             ''Risk Level: '' @ basic_riskLevel data @ newline @
             ''Strengths:'' @ newline @
             bullet_list (strengths_of rt data) @ newline @
             ''Concerns:'' @ newline @
             bullet_list (concerns_of rt data) @ newline @
             ''Data Reliability: '' @
               (if 2 \<le> length (sources this) then ''Good'' else ''Fair'') @
               '' ('' @ numberToString rt (Fin (real (length (sources this)))) @
               '' Sources Verified)'')
      else Inl conversion_error)"
  unfolding generateBasicSummary_def Let_def
  by (auto simp: strengths_concerns_result template_convertible)

lemma generateBasicSummary_state [simp]:
  "generateBasicSummary rt (this\<lparr>combined_data := c\<rparr>) d = generateBasicSummary rt this d"
  "generateBasicSummary rt (this\<lparr>summary := x\<rparr>) d = generateBasicSummary rt this d"
  by (simp_all add: generateBasicSummary_def Let_def split: sum.split prod.split)

lemma basic_text_state [simp]:
  "basic_text rt (this\<lparr>combined_data := c\<rparr>) d = basic_text rt this d"
  "basic_text rt (this\<lparr>summary := x\<rparr>) d = basic_text rt this d"
  by (simp_all add: basic_text_def)

lemma generateBasicSummary_basic_text:
  "generateBasicSummary rt this data =
     (if convertible (company_name data) \<and> convertible (change_percent data)
      then Inr (basic_text rt this data) else Inl conversion_error)"
  by (simp add: basic_text_def generateBasicSummary_layout)

lemma prompt_text_result:
  "prompt_text rt this data =
     (if printable data then Inr (prompt_of rt this data) else Inl conversion_error)"
  by (auto simp: prompt_of_def prompt_text_def template_convertible printable_def)

lemma prompt_state [simp]:
  "prompt_text rt (this\<lparr>combined_data := c\<rparr>) d = prompt_text rt this d"
  "prompt_text rt (this\<lparr>summary := x\<rparr>) d = prompt_text rt this d"
  "prompt_of rt (this\<lparr>combined_data := c\<rparr>) d = prompt_of rt this d"
  "prompt_of rt (this\<lparr>summary := x\<rparr>) d = prompt_of rt this d"
  by (simp_all add: prompt_text_def prompt_of_def)

subsection \<open>The merge, the orchestrator and the handler\<close>

lemma getCombinedData_merged:
  "getCombinedData this = (merged this, this\<lparr>combined_data := merged this\<rparr>)"
  by (simp add: merged_def getCombinedData_def Let_def)

lemma merged_fields:
  "current_price (merged this) =
     js_or (js_or (yahoo_value this ''current_price'') (nse_value this ''current_price''))
           (screener_info this ''price'')"
  "change_percent (merged this) =
     js_or (yahoo_value this ''change_percent'') (nse_value this ''change_percent'')"
  "company_name (merged this) =
     js_or (js_or (nse_value this ''company_name'') (screener_info this ''name''))
           (JStr (stockSymbol this))"
  "market_cap (merged this) = screener_ratio this ''market_cap''"
  "pe_ratio (merged this) =
     js_or (screener_ratio this ''pe_ratio'') (nse_value this ''pe_ratio'')"
  "roe (merged this) = screener_ratio this ''roe''"
  "book_value (merged this) = screener_ratio this ''book_value''"
  by (simp_all add: merged_def getCombinedData_def Let_def yahoo_value_def nse_value_def
        screener_info_def screener_ratio_def)

lemma merged_state [simp]:
  "merged (this\<lparr>combined_data := c\<rparr>) = merged this"
  "merged (this\<lparr>summary := x\<rparr>) = merged this"
  by (simp_all add: merged_def getCombinedData_def Let_def)

lemma all_failed_iff:
  "(\<forall>e. \<not> succeeded w e) =
     (yahoo_data w = None \<and> nse_data w = None \<and> screener_data w = None)"
  unfolding succeeded_def by (metis data_of.simps extractor.exhaust)

lemma scrapeAllSources_result:
  "scrapeAllSources w (new_scraper u) =
     (if \<forall>e. \<not> succeeded w e then (Inl (Error all_failed_message), fetches)
      else (Inr ((new_scraper u)\<lparr>sources := stored w\<rparr>), fetches))"
  unfolding all_failed_iff
  by (cases "settled w"; cases "yahoo_data w"; cases "nse_data w"; cases "screener_data w")
     (simp_all add: scrapeAllSources_def stored_def new_scraper_def all_failed_message_def
        fetchYahooFinanceData_def fetchNSEData_def scrapeScreener_def set_prop_def fetches_def)

lemma getSourcesList_stored:
  "getSourcesList (this\<lparr>sources := stored w\<rparr>) =
     map display_name (filter (succeeded w) (order_list (settled w)))"
  by (cases "settled w"; cases "yahoo_data w"; cases "nse_data w"; cases "screener_data w")
     (simp_all add: getSourcesList_def stored_def sourceNames_def succeeded_def)

lemma getSourcesList_state [simp]:
  "getSourcesList (this\<lparr>combined_data := c\<rparr>) = getSourcesList this"
  "getSourcesList (this\<lparr>summary := x\<rparr>) = getSourcesList this"
  by (simp_all add: getSourcesList_def)

lemma scraped_sources [simp]: "sources (scraped rt w s) = stored w"
  by (simp add: scraped_def)

lemma scraped_symbol [simp]: "stockSymbol (scraped rt w s) = toUpperCase rt s"
  by (simp add: scraped_def new_scraper_def)

lemma lines_of_state [simp]:
  "lines_of rt (this\<lparr>combined_data := c\<rparr>) d = lines_of rt this d"
  "lines_of rt (this\<lparr>summary := x\<rparr>) d = lines_of rt this d"
  by (simp_all add: lines_of_def)

lemma printable_summary:
  "printable data \<Longrightarrow> convertible (company_name data) \<and> convertible (change_percent data)"
  by (simp add: printable_def)

lemma generateSummary_result:
  "generateSummary rt this =
     (if convertible (company_name (merged this)) \<and> convertible (change_percent (merged this))
      then Inr (join newline (lines_of rt this (merged this)),
                this\<lparr>combined_data := merged this,
                      summary := JStr (join newline (lines_of rt this (merged this)))\<rparr>)
      else Inl conversion_error)"
  by (simp add: generateSummary_def getCombinedData_merged Let_def summary_lines_lines_of
        summary_lines_fails)

lemma final_catch_result:
  "final_catch rt this data prompt err =
     (if convertible (company_name data) \<and> convertible (change_percent data)
      then Inr \<lparr>fs_summary = JStr (basic_text rt this data), fs_prompt = prompt,
                fs_model = JUndefined, fs_error = JStr (message err)\<rparr>
      else Inl conversion_error)"
  by (simp add: final_catch_def generateBasicSummary_basic_text)

lemma generateFinalSummary_result:
  "generateFinalSummary rt w this =
     (if printable (merged this) then
        (Inr \<lparr>fs_summary =
                (if enrichment_failed w then JStr (basic_text rt this (merged this))
                 else case openai w of Content c \<Rightarrow> c | Throws err \<Rightarrow> JUndefined),
              fs_prompt = prompt_of rt this (merged this),
              fs_model = (if enrichment_failed w then JUndefined else JStr ''gpt-3.5-turbo''),
              fs_error = (if enrichment_failed w then JStr (fallback_reason w) else JUndefined)\<rparr>,
         this\<lparr>combined_data := merged this\<rparr>,
         if js_truthy (OPENAI_API_KEY w) then [Enrich] else [])
      else (Inl conversion_error, this\<lparr>combined_data := merged this\<rparr>, []))"
  using printable_summary [of "merged this"]
  by (cases "openai w")
     (auto simp: generateFinalSummary_def getCombinedData_merged prompt_text_result
        generateBasicSummary_basic_text final_catch_result enrichment_failed_def
        fallback_reason_def)

lemma analyze_string:
  assumes "s \<noteq> []"
  shows "analyze rt w (JStr s) =
    (if \<forall>e. \<not> succeeded w e then (AllSourcesFailed, fetches)
     else if printable (merged (scraped rt w s)) then
       (Ok \<lparr>res_symbol = toUpperCase rt s,
            res_summary =
              JStr (join newline (lines_of rt (scraped rt w s) (merged (scraped rt w s)))),
            final_summary =
              (if enrichment_failed w
               then JStr (basic_text rt (scraped rt w s) (merged (scraped rt w s)))
               else case openai w of Content c \<Rightarrow> c | Throws err \<Rightarrow> JUndefined),
            ai_prompt = prompt_of rt (scraped rt w s) (merged (scraped rt w s)),
            ai_model = (if enrichment_failed w then JStr ''basic'' else JStr ''gpt-3.5-turbo''),
            ai_error = (if enrichment_failed w \<and> fallback_reason w \<noteq> []
                        then JStr (fallback_reason w) else JNull),
            res_sources = map display_name (filter (succeeded w) (order_list (settled w))),
            raw_data = stored w,
            res_combined_data = merged (scraped rt w s)\<rparr>,
        fetches @ (if js_truthy (OPENAI_API_KEY w) then [Enrich] else []))
     else (ConversionFailed, fetches))"
proof -
  have gs: "getSourcesList (scraped rt w s) =
      map display_name (filter (succeeded w) (order_list (settled w)))"
    unfolding scraped_def by (rule getSourcesList_stored)
  have sc: "(new_scraper (toUpperCase rt s))\<lparr>sources := stored w\<rparr> = scraped rt w s"
    by (simp add: scraped_def)
  have cf: "catch_handler conversion_error = ConversionFailed"
    by (simp add: catch_handler_def conversion_error_def ConversionFailed_def)
  have af: "catch_handler (Error all_failed_message) = AllSourcesFailed"
    by (simp add: catch_handler_def AllSourcesFailed_def all_failed_message_def)
  show ?thesis
    using assms printable_summary [of "merged (scraped rt w s)"]
    unfolding analyze_def
    by (auto simp: template_convertible scrapeAllSources_result sc generateSummary_result
          generateFinalSummary_result gs js_or_def cf af)
qed

lemma analyze_falsy:
  "\<not> js_truthy symbol \<Longrightarrow> analyze rt w symbol = (InvalidSymbol, [])"
  by (simp add: analyze_def InvalidSymbol_def)

lemma set_order_list: "set (order_list ord) = UNIV"
proof -
  have "\<And>e. e \<in> set (order_list ord)"
    by (cases ord; case_tac e; simp)
  then show ?thesis by blast
qed

lemma distinct_order_list: "distinct (order_list ord)"
  by (cases ord) simp_all

lemma inj_display_name: "inj display_name"
  by (rule injI) (case_tac x; case_tac y; simp)

subsection \<open>The P/E line, the stored sources and the example requests\<close>


lemma stored_lookup:
  "map_of (stored w) (source_key e) = map_option JObj (data_of w e)"
  by (cases "settled w"; cases "yahoo_data w"; cases "nse_data w"; cases "screener_data w";
      cases e)
     (simp_all add: stored_def)

lemma stored_keys:
  "map fst (stored w) = map source_key (filter (succeeded w) (order_list (settled w)))"
  by (cases "settled w"; cases "yahoo_data w"; cases "nse_data w"; cases "screener_data w")
     (simp_all add: stored_def succeeded_def)

lemma basic_text_layout:
  "convertible (company_name data) \<Longrightarrow> convertible (change_percent data) \<Longrightarrow>
   basic_text rt this data =
     ''Stock: '' @ rendered rt (company_name data) @ '' ('' @ stockSymbol this @ '')'' @
     newline @
     ''Current Price: '' @
       (case truthy_number (current_price data) of
          Some n \<Rightarrow> rupee @ toFixed2 rt n | None \<Rightarrow> ''N/A'') @
       ''  |  Change: '' @ rendered rt (js_or (change_percent data) (JStr ''N/A'')) @
       ''%'' @ newline @
     ''Valuation: '' @ basic_valuation data @ newline @
     ''Risk Level: '' @ basic_riskLevel data @ newline @
     ''Strengths:'' @ newline @
     bullet_list (strengths_of rt data) @ newline @
     ''Concerns:'' @ newline @
     bullet_list (concerns_of rt data) @ newline @
     ''Data Reliability: '' @
       (if 2 \<le> length (sources this) then ''Good'' else ''Fair'') @
       '' ('' @ numberToString rt (Fin (real (length (sources this)))) @
       '' Sources Verified)''"
  by (simp add: basic_text_def generateBasicSummary_layout)

lemma example_world_merged:
  "merged (scraped example_builtins example_world ''tcs'') = example_data"
  by (simp add: merged_def getCombinedData_def scraped_def stored_def example_world_def
        new_scraper_def get_prop_def js_or_def Let_def example_data_def example_builtins_def)

lemma example_data_printable: "printable example_data"
  by (simp add: printable_def example_data_def)

lemma example_world_stored:
  "stored example_world =
     [(''screener'', JObj
         [(''company_info'', JObj [(''name'', JStr ''Tata Consultancy Services Ltd''),
                                   (''price'', JNum (Fin 100))]),
          (''financials'', JObj []),
          (''ratios'', JObj [(''market_cap'', JNum (Fin 250000)), (''pe_ratio'', JNum (Fin 10)),
                             (''roe'', JNum (Fin 20))])]),
      (''yahoo_finance'',
         JObj [(''current_price'', JNum (Fin 100)), (''change_percent'', JStr ''1.25'')])]"
  by (simp add: stored_def example_world_def)

lemma example_data_strengths:
  "strengths_of example_builtins example_data =
     [''Good ROE indicating profitability'', ''Large-cap stock, stable'',
      ''Positive price momentum'']"
  "concerns_of example_builtins example_data = [''Limited historical data available'']"
  by (simp_all add: strengths_of_def concerns_of_def strengths_concerns_def Let_def push_def
        example_data_def parseFloat_def example_builtins_def js_gt_def)

lemma object_name_world_merged:
  "company_name (merged (scraped rt object_name_world s)) = JObj [(''toString'', JNum (Fin 1))]"
  by (simp add: merged_def getCombinedData_def scraped_def stored_def object_name_world_def
        example_world_def new_scraper_def get_prop_def js_or_def Let_def)

lemma object_name_world_fails:
  "fst (analyze example_builtins object_name_world (JStr ''tcs'')) = ConversionFailed"
proof -
  have "\<not> printable (merged (scraped example_builtins object_name_world ''tcs''))"
    by (simp add: printable_def object_name_world_merged)
  moreover have "succeeded object_name_world NSE"
    by (simp add: succeeded_def object_name_world_def)
  ultimately show ?thesis
    by (auto simp: analyze_string)
qed

section \<open>The claims\<close>

text \<open>
  C1, as amended. Every merged field is the first truthy value of its priority list
  (the last entry when none is truthy), and the three fields with a single source are
  that source's value. So when source A ranks above source B, A's value is truthy and
  no source above A has a truthy value, the merged field is A's value whatever B
  provides. The merged record holds values only: it names no source.
\<close>

theorem reconciliation_priority:
  "current_price (merged this) =
     first_truthy [yahoo_value this ''current_price'', nse_value this ''current_price'',
                   screener_info this ''price''] \<and>
   change_percent (merged this) =
     first_truthy [yahoo_value this ''change_percent'', nse_value this ''change_percent''] \<and>
   company_name (merged this) =
     first_truthy [nse_value this ''company_name'', screener_info this ''name'',
                   JStr (stockSymbol this)] \<and>
   pe_ratio (merged this) =
     first_truthy [screener_ratio this ''pe_ratio'', nse_value this ''pe_ratio''] \<and>
   market_cap (merged this) = screener_ratio this ''market_cap'' \<and>
   roe (merged this) = screener_ratio this ''roe'' \<and>
   book_value (merged this) = screener_ratio this ''book_value'' \<and>
   (js_truthy (yahoo_value this ''current_price'') \<longrightarrow>
      current_price (merged this) = yahoo_value this ''current_price'') \<and>
   (\<not> js_truthy (yahoo_value this ''current_price'') \<and>
    js_truthy (nse_value this ''current_price'') \<longrightarrow>
      current_price (merged this) = nse_value this ''current_price'') \<and>
   (js_truthy (yahoo_value this ''change_percent'') \<longrightarrow>
      change_percent (merged this) = yahoo_value this ''change_percent'') \<and>
   (js_truthy (nse_value this ''company_name'') \<longrightarrow>
      company_name (merged this) = nse_value this ''company_name'') \<and>
   (\<not> js_truthy (nse_value this ''company_name'') \<and>
    js_truthy (screener_info this ''name'') \<longrightarrow>
      company_name (merged this) = screener_info this ''name'') \<and>
   (js_truthy (screener_ratio this ''pe_ratio'') \<longrightarrow>
      pe_ratio (merged this) = screener_ratio this ''pe_ratio'')"
  by (simp add: merged_fields js_or_def)

theorem reconciliation_priority_witness:
  "js_truthy (yahoo_value yahoo_priced_scraper ''current_price'') \<and>
   nse_value yahoo_priced_scraper ''current_price'' = JNum (Fin 101) \<and>
   current_price (merged yahoo_priced_scraper) = JNum (Fin 100) \<and>
   \<not> js_truthy (yahoo_value nse_priced_scraper ''current_price'') \<and>
   current_price (merged nse_priced_scraper) = JNum (Fin 100)"
  using reconciliation_priority [of yahoo_priced_scraper]
        reconciliation_priority [of nse_priced_scraper]
  by (simp add: yahoo_priced_scraper_def nse_priced_scraper_def new_scraper_def
        yahoo_value_def nse_value_def screener_info_def get_prop_def)

theorem reconciliation_counterexample:
  "nse_value three_priced_scraper ''current_price'' = JNum (Fin 101) \<and>
   screener_info three_priced_scraper ''price'' = JNum (Fin 102) \<and>
   current_price (merged three_priced_scraper) = JNum (Fin 100) \<and>
   current_price (merged three_priced_scraper) \<noteq> nse_value three_priced_scraper ''current_price'' \<and>
   yahoo_value yahoo_priced_scraper ''current_price'' = JNum (Fin 100) \<and>
   yahoo_value nse_priced_scraper ''current_price'' = JUndefined \<and>
   nse_value nse_priced_scraper ''current_price'' = JNum (Fin 100) \<and>
   merged yahoo_priced_scraper = merged nse_priced_scraper"
  by (simp add: merged_def getCombinedData_def three_priced_scraper_def yahoo_priced_scraper_def
        nse_priced_scraper_def new_scraper_def yahoo_value_def nse_value_def screener_info_def
        get_prop_def js_or_def Let_def)

text \<open>
  C2, as amended. For a request with a non-empty symbol string: when no extractor
  succeeds the handler answers with the failure carrying the message of
  \<^verbatim>\<open>scrapeAllSources\<close>; when at least one succeeds and the merged record is printable it
  answers with a report built from the available subset: \<^verbatim>\<open>raw_data\<close> holds, under its
  key, the data of each extractor that succeeded and nothing for one that failed, and
  \<^verbatim>\<open>combined_data\<close> is the merge of these.
\<close>

theorem all_sources_failed_is_fatal:
  "s \<noteq> [] \<Longrightarrow>
     ((\<forall>e. \<not> succeeded w e) \<longrightarrow> fst (analyze rt w (JStr s)) = AllSourcesFailed) \<and>
     ((\<exists>e. succeeded w e) \<and> printable (merged (scraped rt w s)) \<longrightarrow>
        (\<exists>r. fst (analyze rt w (JStr s)) = Ok r \<and>
             (\<forall>e. map_of (raw_data r) (source_key e) = map_option JObj (data_of w e)) \<and>
             map fst (raw_data r) =
               map source_key (filter (succeeded w) (order_list (settled w))) \<and>
             res_combined_data r =
               merged ((new_scraper (toUpperCase rt s))\<lparr>sources := raw_data r\<rparr>)))"
proof -
  assume ne: "s \<noteq> []"
  show ?thesis
    by (auto simp: analyze_string [OF ne] stored_lookup stored_keys scraped_def)
qed

theorem all_sources_failed_is_fatal_witness:
  "fst (analyze example_builtins offline_world (JStr ''tcs'')) = AllSourcesFailed \<and>
   (\<exists>r. fst (analyze example_builtins example_world (JStr ''tcs'')) = Ok r \<and>
        map fst (raw_data r) = [''screener'', ''yahoo_finance''] \<and>
        map_of (raw_data r) ''nse'' = None \<and>
        map_of (raw_data r) ''yahoo_finance'' =
          Some (JObj [(''current_price'', JNum (Fin 100)),
                      (''change_percent'', JStr ''1.25'')]) \<and>
        res_combined_data r = example_data)"
proof -
  have none: "\<forall>e. \<not> succeeded offline_world e"
    by (simp add: all_failed_iff offline_world_def example_world_def)
  have some: "\<exists>e. succeeded example_world e"
    by (rule exI [of _ Yahoo]) (simp add: succeeded_def example_world_def)
  have pr: "printable (merged (scraped example_builtins example_world ''tcs''))"
    by (simp add: example_world_merged example_data_printable)
  have ks: "map source_key (filter (succeeded example_world) (order_list (settled example_world)))
      = [''screener'', ''yahoo_finance'']"
    by (simp add: succeeded_def example_world_def)
  have dn: "map_option JObj (data_of example_world NSE) = None"
    by (simp add: example_world_def)
  have dy: "map_option JObj (data_of example_world Yahoo) =
      Some (JObj [(''current_price'', JNum (Fin 100)), (''change_percent'', JStr ''1.25'')])"
    by (simp add: example_world_def)
  have ne: "''tcs'' \<noteq> []" by simp
  from all_sources_failed_is_fatal [OF ne, of offline_world example_builtins] none
  have a: "fst (analyze example_builtins offline_world (JStr ''tcs'')) = AllSourcesFailed"
    by blast
  from all_sources_failed_is_fatal [OF ne, of example_world example_builtins] some pr
  obtain r where r: "fst (analyze example_builtins example_world (JStr ''tcs'')) = Ok r"
    and l: "\<forall>e. map_of (raw_data r) (source_key e) = map_option JObj (data_of example_world e)"
    and k: "map fst (raw_data r) =
      map source_key (filter (succeeded example_world) (order_list (settled example_world)))"
    by blast
  from some have some': "\<not> (\<forall>e. \<not> succeeded example_world e)"
    by blast
  have c: "res_combined_data r = example_data"
    using r
    by (auto simp: analyze_string [OF ne] some' example_world_merged example_data_printable)
  from l [rule_format, of NSE] dn have n: "map_of (raw_data r) ''nse'' = None"
    by simp
  from l [rule_format, of Yahoo] dy have y: "map_of (raw_data r) ''yahoo_finance'' =
      Some (JObj [(''current_price'', JNum (Fin 100)), (''change_percent'', JStr ''1.25'')])"
    by simp
  from a r k ks c n y show ?thesis by auto
qed

theorem report_needs_printable_counterexample:
  "succeeded object_name_world NSE \<and>
   fst (analyze example_builtins object_name_world (JStr ''tcs'')) =
     Failed 500 ''Cannot convert object to primitive value''"
  using object_name_world_fails
  by (simp add: succeeded_def object_name_world_def ConversionFailed_def)





text \<open>
  C5, as amended. For a request with a non-empty symbol string, at least one succeeding
  extractor and a printable merged record: when the key is missing or the enrichment
  call throws, the handler still answers with a report; its \<^verbatim>\<open>final_summary\<close> is
  what \<^verbatim>\<open>generateBasicSummary\<close> builds from the merged record, spelled out below,
  \<^verbatim>\<open>ai_model\<close> is \<^verbatim>\<open>'basic'\<close>, and \<^verbatim>\<open>ai_error\<close> is the reason when the reason is a
  non-empty text and \<^verbatim>\<open>null\<close> when it is empty.
\<close>

theorem enrichment_fallback:
  "s \<noteq> [] \<Longrightarrow> succeeded w e \<Longrightarrow> printable (merged (scraped rt w s)) \<Longrightarrow>
   enrichment_failed w \<Longrightarrow>
     \<exists>r. fst (analyze rt w (JStr s)) = Ok r \<and>
         res_combined_data r = merged (scraped rt w s) \<and>
         raw_data r = stored w \<and>
         final_summary r =
           JStr (''Stock: '' @ rendered rt (company_name (res_combined_data r)) @ '' ('' @
                   toUpperCase rt s @ '')'' @ newline @
                 ''Current Price: '' @
                   (case truthy_number (current_price (res_combined_data r)) of
                      Some n \<Rightarrow> rupee @ toFixed2 rt n | None \<Rightarrow> ''N/A'') @
                   ''  |  Change: '' @
                   rendered rt (js_or (change_percent (res_combined_data r)) (JStr ''N/A'')) @
                   ''%'' @ newline @
                 ''Valuation: '' @ basic_valuation (res_combined_data r) @ newline @
                 ''Risk Level: '' @ basic_riskLevel (res_combined_data r) @ newline @
                 ''Strengths:'' @ newline @
                 bullet_list (strengths_of rt (res_combined_data r)) @ newline @
                 ''Concerns:'' @ newline @
                 bullet_list (concerns_of rt (res_combined_data r)) @ newline @
                 ''Data Reliability: '' @
                   (if 2 \<le> length (raw_data r) then ''Good'' else ''Fair'') @
                   '' ('' @ numberToString rt (Fin (real (length (raw_data r)))) @
                   '' Sources Verified)'') \<and>
         ai_model r = JStr ''basic'' \<and>
         ai_error r = (if fallback_reason w = [] then JNull else JStr (fallback_reason w))"
proof -
  assume ne: "s \<noteq> []" and ok: "succeeded w e"
    and pr: "printable (merged (scraped rt w s))" and ef: "enrichment_failed w"
  from pr have cv: "convertible (company_name (merged (scraped rt w s)))"
      "convertible (change_percent (merged (scraped rt w s)))"
    by (simp_all add: printable_def)
  from ok have some: "\<not> (\<forall>e. \<not> succeeded w e)" by blast
  show ?thesis
    by (simp add: analyze_string [OF ne] some pr ef basic_text_layout [OF cv])
qed

theorem enrichment_fallback_witness:
  "(\<exists>r. fst (analyze example_builtins example_world (JStr ''tcs'')) = Ok r \<and>
        ai_error r = JStr ''OpenAI API key not configured'' \<and> ai_model r = JStr ''basic'' \<and>
        final_summary r =
          JStr (''Stock: Tata Consultancy Services Ltd (TCS)'' @ newline @
                ''Current Price: '' @ rupee @ ''100.00  |  Change: 1.25%'' @ newline @
                ''Valuation: Cheap (Low P/E)'' @ newline @
                ''Risk Level: Low-Moderate'' @ newline @
                ''Strengths:'' @ newline @
                ''* Good ROE indicating profitability'' @ newline @
                ''* Large-cap stock, stable'' @ newline @
                ''* Positive price momentum'' @ newline @
                ''Concerns:'' @ newline @
                ''* Limited historical data available'' @ newline @
                ''Data Reliability: Good (2 Sources Verified)'')) \<and>
   (\<exists>r. fst (analyze example_builtins throwing_world (JStr ''tcs'')) = Ok r \<and>
        ai_error r = JStr ''timeout of 15000ms exceeded'' \<and> ai_model r = JStr ''basic'')"
proof -
  have ne: "''tcs'' \<noteq> []" by simp
  have s1: "succeeded example_world Yahoo"
    by (simp add: succeeded_def example_world_def)
  have s2: "succeeded throwing_world Yahoo"
    by (simp add: succeeded_def throwing_world_def example_world_def)
  have p1: "printable (merged (scraped example_builtins example_world ''tcs''))"
    by (simp add: example_world_merged example_data_printable)
  have "\<And>x. data_of throwing_world x = data_of example_world x"
    by (case_tac x) (simp_all add: throwing_world_def)
  then have st: "stored throwing_world = stored example_world"
    by (simp add: stored_def throwing_world_def)
  have p2: "printable (merged (scraped example_builtins throwing_world ''tcs''))"
    using p1 by (simp add: scraped_def st)
  have f1: "enrichment_failed example_world"
    by (simp add: enrichment_failed_def example_world_def)
  have f2: "enrichment_failed throwing_world"
    by (simp add: enrichment_failed_def throwing_world_def example_world_def)
  have r1: "fallback_reason example_world = ''OpenAI API key not configured''"
    by (simp add: fallback_reason_def example_world_def)
  have r2: "fallback_reason throwing_world = ''timeout of 15000ms exceeded''"
    by (simp add: fallback_reason_def throwing_world_def example_world_def)
  have up: "toUpperCase example_builtins ''tcs'' = ''TCS''"
    by (simp add: example_builtins_def)
  from enrichment_fallback [OF ne s1 p1 f1]
  obtain r where a: "fst (analyze example_builtins example_world (JStr ''tcs'')) = Ok r"
    and c: "res_combined_data r = example_data" and d: "raw_data r = stored example_world"
    and t: "final_summary r =
           JStr (''Stock: '' @ rendered example_builtins (company_name (res_combined_data r)) @ '' ('' @
                   toUpperCase example_builtins ''tcs'' @ '')'' @ newline @
                 ''Current Price: '' @
                   (case truthy_number (current_price (res_combined_data r)) of
                      Some n \<Rightarrow> rupee @ toFixed2 example_builtins n | None \<Rightarrow> ''N/A'') @
                   ''  |  Change: '' @
                   rendered example_builtins (js_or (change_percent (res_combined_data r)) (JStr ''N/A'')) @
                   ''%'' @ newline @
                 ''Valuation: '' @ basic_valuation (res_combined_data r) @ newline @
                 ''Risk Level: '' @ basic_riskLevel (res_combined_data r) @ newline @
                 ''Strengths:'' @ newline @
                 bullet_list (strengths_of example_builtins (res_combined_data r)) @ newline @
                 ''Concerns:'' @ newline @
                 bullet_list (concerns_of example_builtins (res_combined_data r)) @ newline @
                 ''Data Reliability: '' @
                   (if 2 \<le> length (raw_data r) then ''Good'' else ''Fair'') @
                   '' ('' @ numberToString example_builtins (Fin (real (length (raw_data r)))) @
                   '' Sources Verified)'')"
    and m: "ai_model r = JStr ''basic''"
    and e: "ai_error r = JStr ''OpenAI API key not configured''"
    unfolding r1 example_world_merged by auto
  have "final_summary r =
          JStr (''Stock: Tata Consultancy Services Ltd (TCS)'' @ newline @
                ''Current Price: '' @ rupee @ ''100.00  |  Change: 1.25%'' @ newline @
                ''Valuation: Cheap (Low P/E)'' @ newline @
                ''Risk Level: Low-Moderate'' @ newline @
                ''Strengths:'' @ newline @
                ''* Good ROE indicating profitability'' @ newline @
                ''* Large-cap stock, stable'' @ newline @
                ''* Positive price momentum'' @ newline @
                ''Concerns:'' @ newline @
                ''* Limited historical data available'' @ newline @
                ''Data Reliability: Good (2 Sources Verified)'')"
    unfolding t unfolding c d example_world_stored example_data_strengths up
    by (simp add: example_data_def basic_valuation_def basic_riskLevel_def bullet_list_def
          js_or_def example_builtins_def js_gt_def)
  with a m e have first:
    "\<exists>r. fst (analyze example_builtins example_world (JStr ''tcs'')) = Ok r \<and>
        ai_error r = JStr ''OpenAI API key not configured'' \<and> ai_model r = JStr ''basic'' \<and>
        final_summary r =
          JStr (''Stock: Tata Consultancy Services Ltd (TCS)'' @ newline @
                ''Current Price: '' @ rupee @ ''100.00  |  Change: 1.25%'' @ newline @
                ''Valuation: Cheap (Low P/E)'' @ newline @
                ''Risk Level: Low-Moderate'' @ newline @
                ''Strengths:'' @ newline @
                ''* Good ROE indicating profitability'' @ newline @
                ''* Large-cap stock, stable'' @ newline @
                ''* Positive price momentum'' @ newline @
                ''Concerns:'' @ newline @
                ''* Limited historical data available'' @ newline @
                ''Data Reliability: Good (2 Sources Verified)'')"
    by blast
  from enrichment_fallback [OF ne s2 p2 f2]
  have second: "\<exists>r. fst (analyze example_builtins throwing_world (JStr ''tcs'')) = Ok r \<and>
        ai_error r = JStr ''timeout of 15000ms exceeded'' \<and> ai_model r = JStr ''basic''"
    unfolding r2 by auto
  from first second show ?thesis by blast
qed

theorem silent_error_counterexample:
  "openai silent_error_world = Throws (Error []) \<and>
   js_truthy (OPENAI_API_KEY silent_error_world) \<and>
   map_option ai_error
     (the_report (fst (analyze example_builtins silent_error_world (JStr ''tcs'')))) =
     Some JNull \<and>
   map_option ai_model
     (the_report (fst (analyze example_builtins silent_error_world (JStr ''tcs'')))) =
     Some (JStr ''basic'') \<and>
   enrichment_failed object_name_world \<and>
   fst (analyze example_builtins object_name_world (JStr ''tcs'')) =
     Failed 500 ''Cannot convert object to primitive value''"
proof -
  have ne: "''tcs'' \<noteq> []" by simp
  have ef: "enrichment_failed object_name_world"
    by (simp add: enrichment_failed_def object_name_world_def example_world_def)
  have "\<And>x. data_of silent_error_world x = data_of example_world x"
    by (case_tac x) (simp_all add: silent_error_world_def)
  then have st: "stored silent_error_world = stored example_world"
    by (simp add: stored_def silent_error_world_def)
  have pr: "printable (merged (scraped example_builtins silent_error_world ''tcs''))"
    using example_data_printable example_world_merged by (simp add: scraped_def st)
  have ok: "succeeded silent_error_world Yahoo"
    by (simp add: succeeded_def silent_error_world_def example_world_def)
  then have some: "\<not> (\<forall>e. \<not> succeeded silent_error_world e)" by blast
  show ?thesis
    using ef object_name_world_fails
    by (simp add: analyze_string [OF ne] some pr ConversionFailed_def)
       (simp add: silent_error_world_def enrichment_failed_def fallback_reason_def)
qed




text \<open>
  C7, as amended. A falsy symbol (missing, \<^verbatim>\<open>null\<close>, empty string, 0, \<^verbatim>\<open>false\<close>) is
  answered with status 400 and no request is sent. A non-empty symbol string for which
  the merged record is printable is answered with a report or with the failure of
  \<^verbatim>\<open>scrapeAllSources\<close>, after the three fetches.
\<close>

theorem analyze_failure_modes:
  "(\<not> js_truthy symbol \<longrightarrow> analyze rt w symbol = (InvalidSymbol, [])) \<and>
   (s \<noteq> [] \<and> printable (merged (scraped rt w s)) \<longrightarrow>
      ((\<exists>r. fst (analyze rt w (JStr s)) = Ok r) \<or>
       fst (analyze rt w (JStr s)) = AllSourcesFailed) \<and>
      take 3 (snd (analyze rt w (JStr s))) = [Fetch Yahoo, Fetch NSE, Fetch Screener])"
  by (auto simp: analyze_falsy analyze_string fetches_def)

theorem analyze_failure_modes_witness:
  "analyze example_builtins example_world (JStr []) = (InvalidSymbol, []) \<and>
   analyze example_builtins example_world JUndefined = (InvalidSymbol, []) \<and>
   fst (analyze example_builtins offline_world (JStr ''tcs'')) = AllSourcesFailed \<and>
   snd (analyze example_builtins offline_world (JStr ''tcs'')) =
     [Fetch Yahoo, Fetch NSE, Fetch Screener] \<and>
   (\<exists>r. fst (analyze example_builtins example_world (JStr ''tcs'')) = Ok r)"
proof -
  have ne: "''tcs'' \<noteq> []" by simp
  have none: "\<forall>e. \<not> succeeded offline_world e"
    by (simp add: all_failed_iff offline_world_def example_world_def)
  have some: "\<not> (\<forall>e. \<not> succeeded example_world e)"
    by (simp add: all_failed_iff example_world_def)
  have p1: "printable (merged (scraped example_builtins example_world ''tcs''))"
    by (simp add: example_world_merged example_data_printable)
  have off: "fst (analyze example_builtins offline_world (JStr ''tcs'')) = AllSourcesFailed"
      "snd (analyze example_builtins offline_world (JStr ''tcs'')) =
         [Fetch Yahoo, Fetch NSE, Fetch Screener]"
    using none by (simp_all add: analyze_string [OF ne] fetches_def)
  have on: "\<exists>r. fst (analyze example_builtins example_world (JStr ''tcs'')) = Ok r"
    using analyze_failure_modes [of "JStr []" example_builtins example_world "''tcs''"] p1
      some
    by (simp add: analyze_string [OF ne] AllSourcesFailed_def)
  show ?thesis
    using analyze_failure_modes [of "JStr []" example_builtins example_world "''tcs''"]
          analyze_failure_modes [of JUndefined example_builtins example_world "''tcs''"]
          off on
    by simp
qed

theorem other_failures_counterexample:
  "js_truthy (JNum (Fin 123)) \<and>
   analyze example_builtins example_world (JNum (Fin 123)) =
     (Failed 500 ''stockSymbol.toUpperCase is not a function'', []) \<and>
   InvalidSymbol = Failed 400 ''Stock symbol is required'' \<and>
   AllSourcesFailed =
     Failed 500 (''Unable to fetch data from any source. '' @
                 ''Stock symbol might be invalid or services are unavailable.'') \<and>
   fst (analyze example_builtins object_name_world (JStr ''tcs'')) =
     Failed 500 ''Cannot convert object to primitive value''"
  using object_name_world_fails
  by (simp add: analyze_def catch_handler_def InvalidSymbol_def AllSourcesFailed_def
        all_failed_message_def ConversionFailed_def template_convertible example_builtins_def)

text \<open>
  C8, as amended. When every source of its priority list is absent (\<^verbatim>\<open>undefined\<close> or
  \<^verbatim>\<open>null\<close>), the merged price, change percent, market cap, ratio, return on equity and
  book value are absent too: none is given a zero or a placeholder. Likewise, when no
  source of the list has a truthy value, the merged value is not truthy. The company
  name is the exception: it falls back to the upper-case symbol in the merge itself.
\<close>

theorem unresolved_fields_stay_absent:
  "(absent (yahoo_value this ''current_price'') \<and> absent (nse_value this ''current_price'') \<and>
    absent (screener_info this ''price'') \<longrightarrow> absent (current_price (merged this))) \<and>
   (absent (yahoo_value this ''change_percent'') \<and> absent (nse_value this ''change_percent'')
      \<longrightarrow> absent (change_percent (merged this))) \<and>
   (absent (screener_ratio this ''pe_ratio'') \<and> absent (nse_value this ''pe_ratio'')
      \<longrightarrow> absent (pe_ratio (merged this))) \<and>
   (absent (screener_ratio this ''market_cap'') \<longrightarrow> absent (market_cap (merged this))) \<and>
   (absent (screener_ratio this ''roe'') \<longrightarrow> absent (roe (merged this))) \<and>
   (absent (screener_ratio this ''book_value'') \<longrightarrow> absent (book_value (merged this))) \<and>
   (\<not> js_truthy (yahoo_value this ''current_price'') \<and>
    \<not> js_truthy (nse_value this ''current_price'') \<and>
    \<not> js_truthy (screener_info this ''price'') \<longrightarrow>
      \<not> js_truthy (current_price (merged this))) \<and>
   (\<not> js_truthy (yahoo_value this ''change_percent'') \<and>
    \<not> js_truthy (nse_value this ''change_percent'') \<longrightarrow>
      \<not> js_truthy (change_percent (merged this))) \<and>
   (\<not> js_truthy (screener_ratio this ''pe_ratio'') \<and>
    \<not> js_truthy (nse_value this ''pe_ratio'') \<longrightarrow>
      \<not> js_truthy (pe_ratio (merged this))) \<and>
   (absent (nse_value this ''company_name'') \<and> absent (screener_info this ''name'')
      \<longrightarrow> company_name (merged this) = JStr (stockSymbol this))"
  by (auto simp: merged_fields js_or_def absent_def)

theorem unresolved_fields_stay_absent_witness:
  "absent (screener_ratio yahoo_only_scraper ''pe_ratio'') \<and>
   absent (nse_value yahoo_only_scraper ''pe_ratio'') \<and>
   pe_ratio (merged yahoo_only_scraper) = JUndefined \<and>
   market_cap (merged yahoo_only_scraper) = JUndefined \<and>
   roe (merged yahoo_only_scraper) = JUndefined \<and>
   book_value (merged yahoo_only_scraper) = JUndefined \<and>
   company_name (merged yahoo_only_scraper) = JStr ''TCS''"
  using unresolved_fields_stay_absent [of yahoo_only_scraper]
  by (simp add: yahoo_only_scraper_def new_scraper_def absent_def merged_fields
        yahoo_value_def nse_value_def screener_info_def screener_ratio_def get_prop_def js_or_def)

theorem company_name_default_counterexample:
  "nse_value yahoo_only_scraper ''company_name'' = JUndefined \<and>
   screener_info yahoo_only_scraper ''name'' = JUndefined \<and>
   stockSymbol yahoo_only_scraper = ''TCS'' \<and>
   company_name (merged yahoo_only_scraper) = JStr ''TCS'' \<and>
   \<not> absent (company_name (merged yahoo_only_scraper))"
  by (simp add: merged_def getCombinedData_def yahoo_only_scraper_def new_scraper_def
        nse_value_def screener_info_def get_prop_def js_or_def absent_def Let_def)

text \<open>
  C9, as amended. For a request with a non-empty symbol string, at least one succeeding
  extractor and a printable merged record, the handler answers with a report whose
  \<^verbatim>\<open>sources\<close> are the display names of the extractors that succeeded, in the order in
  which they completed: each succeeding extractor once, no failed one.
\<close>

theorem report_cites_succeeding_sources:
  "s \<noteq> [] \<Longrightarrow> succeeded w e \<Longrightarrow> printable (merged (scraped rt w s)) \<Longrightarrow>
     \<exists>r. fst (analyze rt w (JStr s)) = Ok r \<and>
         res_sources r = map display_name (filter (succeeded w) (order_list (settled w))) \<and>
         set (res_sources r) = display_name ` {x. succeeded w x} \<and>
         distinct (res_sources r)"
proof -
  assume ne: "s \<noteq> []" and ok: "succeeded w e" and pr: "printable (merged (scraped rt w s))"
  have "set (filter (succeeded w) (order_list (settled w))) = {x. succeeded w x}"
    by (auto simp: set_order_list)
  then have st: "set (map display_name (filter (succeeded w) (order_list (settled w)))) =
      display_name ` {x. succeeded w x}"
    by simp
  have "distinct (filter (succeeded w) (order_list (settled w)))"
    by (simp add: distinct_order_list)
  then have ds: "distinct (map display_name (filter (succeeded w) (order_list (settled w))))"
    by (simp add: distinct_map inj_on_subset [OF inj_display_name subset_UNIV])
  from ok have some: "\<not> (\<forall>e. \<not> succeeded w e)" by blast
  show ?thesis
    using st ds by (simp add: analyze_string [OF ne] some pr)
qed

theorem report_cites_succeeding_sources_witness:
  "\<exists>r. fst (analyze example_builtins example_world (JStr ''tcs'')) = Ok r \<and>
       res_sources r = [''Screener.in'', ''Yahoo Finance'']"
proof -
  have ne: "''tcs'' \<noteq> []" by simp
  have ok: "succeeded example_world Yahoo"
    by (simp add: succeeded_def example_world_def)
  have pr: "printable (merged (scraped example_builtins example_world ''tcs''))"
    by (simp add: example_world_merged example_data_printable)
  have "map display_name (filter (succeeded example_world) (order_list (settled example_world)))
      = [''Screener.in'', ''Yahoo Finance'']"
    by (simp add: succeeded_def example_world_def)
  then show ?thesis
    using report_cites_succeeding_sources [OF ne ok pr] by auto
qed

theorem single_source_counterexample:
  "succeeded object_name_world NSE \<and>
   \<not> succeeded object_name_world Yahoo \<and> \<not> succeeded object_name_world Screener \<and>
   the_report (fst (analyze example_builtins object_name_world (JStr ''tcs''))) = None"
  using object_name_world_fails
  by (simp add: succeeded_def object_name_world_def example_world_def ConversionFailed_def)




end
